theory Spec2Isabelle
  imports Complex_Main
begin

section \<open>Python values and the builtins the bot uses\<close>

text \<open>
  The bot is a single Python module, \<^verbatim>\<open>saifu_finance_bot.py\<close>. Its handlers work on
  message texts, on the per-user dictionary \<^verbatim>\<open>context.user_data\<close> and on the rows of a
  Google sheet. Exceptions are values of type \<open>error\<close>; a computation that may raise
  returns \<open>error + 'a\<close> with \<open>Inl\<close> for the exception.

  A text is a list of characters with code points below 256: the whitespace, digit and
  letter classes below are those of Python on these code points. Characters beyond them
  are outside the model.
\<close>

datatype error =
  ValueError | TypeError | AttributeError | OverflowError | KeyError
  | AuthError | NotFoundError | APIError

text \<open>
  A Python float is an IEEE-754 binary64 number: a finite value (kept as the rational it
  denotes), an infinity or NaN. The sign of zero is not modelled.
\<close>

datatype pyfloat = Fin rat | PosInf | NegInf | NaN

datatype pyval = PNone | PStr string | PInt int | PFloat pyfloat

fun truthy :: "pyval \<Rightarrow> bool" where
  "truthy PNone = False"
| "truthy (PStr s) = (s \<noteq> [])"
| "truthy (PInt n) = (n \<noteq> 0)"
| "truthy (PFloat f) = (f \<noteq> Fin 0)"

text \<open>\<^verbatim>\<open>a or b\<close>: the first operand when it is truthy, the second otherwise.\<close>

definition py_or :: "pyval \<Rightarrow> pyval \<Rightarrow> pyval" where
  "py_or a b = (if truthy a then a else b)"

subsection \<open>Strings\<close>

text \<open>
  Whitespace, as \<^verbatim>\<open>str.strip\<close>, \<^verbatim>\<open>float\<close> and \<^verbatim>\<open>\s\<close> see it: the ASCII blanks and
  separators, the next-line control and the no-break space.
\<close>

definition isspace :: "char \<Rightarrow> bool" where
  "isspace c =
     (let n = (of_char c :: nat)
      in (9 \<le> n \<and> n \<le> 13) \<or> (28 \<le> n \<and> n \<le> 32) \<or> n = 133 \<or> n = 160)"

text \<open>
  A decimal digit, as \<^verbatim>\<open>float\<close> and \<^verbatim>\<open>\d\<close> read it, and a digit in the sense of
  \<^verbatim>\<open>str.isdigit\<close>, which also takes the superscripts one, two and three.
\<close>

definition isdecimal :: "char \<Rightarrow> bool" where
  "isdecimal c = (let n = (of_char c :: nat) in 48 \<le> n \<and> n \<le> 57)"

definition isdigit :: "char \<Rightarrow> bool" where
  "isdigit c = (let n = (of_char c :: nat) in isdecimal c \<or> n = 178 \<or> n = 179 \<or> n = 185)"

definition py_strip :: "string \<Rightarrow> string" where
  "py_strip s = rev (dropWhile isspace (rev (dropWhile isspace s)))"

definition lower_char :: "char \<Rightarrow> char" where
  "lower_char c =
     (let n = (of_char c :: nat)
      in if (65 \<le> n \<and> n \<le> 90) \<or> (192 \<le> n \<and> n \<le> 222 \<and> n \<noteq> 215)
         then char_of (n + 32) else c)"

definition py_lower :: "string \<Rightarrow> string" where
  "py_lower s = map lower_char s"

text \<open>\<^verbatim>\<open>s.replace(c, '')\<close> for a one-character \<open>c\<close>.\<close>

definition remove_char :: "char \<Rightarrow> string \<Rightarrow> string" where
  "remove_char c s = filter (\<lambda>x. x \<noteq> c) s"

text \<open>\<^verbatim>\<open>s.isdigit()\<close>: false on the empty string.\<close>

definition str_isdigit :: "string \<Rightarrow> bool" where
  "str_isdigit s = (s \<noteq> [] \<and> list_all isdigit s)"

text \<open>A text of one or more decimal digits.\<close>

definition str_isdecimal :: "string \<Rightarrow> bool" where
  "str_isdecimal s = (s \<noteq> [] \<and> list_all isdecimal s)"

definition startswith :: "string \<Rightarrow> string \<Rightarrow> bool" where
  "startswith s p = (take (length p) s = p)"

definition digit_val :: "char \<Rightarrow> nat" where
  "digit_val c = of_char c - 48"

definition nat_of_digits :: "string \<Rightarrow> nat" where
  "nat_of_digits s = foldl (\<lambda>acc c. 10 * acc + digit_val c) 0 s"

text \<open>\<^verbatim>\<open>str(n)\<close> for an integer, and decimal printing padded with zeros to a width.\<close>

fun digits_of :: "nat \<Rightarrow> nat \<Rightarrow> string" where
  "digits_of 0 n = []"
| "digits_of (Suc fuel) n =
     (if n < 10 then [char_of (48 + n)]
      else digits_of fuel (n div 10) @ [char_of (48 + n mod 10)])"

definition str_nat :: "nat \<Rightarrow> string" where
  "str_nat n = digits_of (Suc n) n"

definition str_int :: "int \<Rightarrow> string" where
  "str_int i = (if i < 0 then CHR ''-'' # str_nat (nat (- i)) else str_nat (nat i))"

definition zero_pad :: "nat \<Rightarrow> string \<Rightarrow> string" where
  "zero_pad w s = replicate (w - length s) CHR ''0'' @ s"

subsection \<open>Floats\<close>

text \<open>
  Rounding a rational to the nearest binary64 value, ties to even: the value is scaled by
  the spacing of the doubles around it (\<open>2 ^ (e - 52)\<close> for a value in
  \<open>[2 ^ e, 2 ^ (e + 1))\<close>, with \<open>e\<close> no smaller than \<open>-1022\<close>), rounded to an integer and
  scaled back; a result of \<open>2 ^ 1024\<close> or more is an infinity.
\<close>

fun bit_length :: "nat \<Rightarrow> nat" where
  "bit_length n = (if n = 0 then 0 else Suc (bit_length (n div 2)))"

declare bit_length.simps [simp del]

definition pow2 :: "int \<Rightarrow> rat" where
  "pow2 e = (if 0 \<le> e then 2 ^ nat e else 1 / 2 ^ nat (- e))"

text \<open>For \<open>a > 0\<close>, the \<open>e\<close> with \<open>2 ^ e \<le> a < 2 ^ (e + 1)\<close>.\<close>

definition binade :: "rat \<Rightarrow> int" where
  "binade a =
     (if 1 \<le> a then int (bit_length (nat \<lfloor>a\<rfloor>)) - 1
      else let j = int (bit_length (nat \<lfloor>1 / a\<rfloor>)) - 1
           in if a = pow2 (- j) then - j else - j - 1)"

definition round_half_even :: "rat \<Rightarrow> int" where
  "round_half_even q =
     (let f = \<lfloor>q\<rfloor>; d = q - of_int f
      in if d < 1 / 2 then f else if 1 / 2 < d then f + 1
         else if even f then f else f + 1)"

definition round_double :: "rat \<Rightarrow> pyfloat" where
  "round_double q =
     (if q = 0 then Fin 0
      else let a = \<bar>q\<bar>;
               u = pow2 (max (binade a) (- 1022) - 52);
               m = of_int (round_half_even (a / u)) * u
           in if 2 ^ 1024 \<le> m then (if 0 < q then PosInf else NegInf)
              else Fin (if 0 < q then m else - m))"

fun fl_neg :: "pyfloat \<Rightarrow> pyfloat" where
  "fl_neg (Fin q) = Fin (- q)"
| "fl_neg PosInf = NegInf"
| "fl_neg NegInf = PosInf"
| "fl_neg NaN = NaN"

fun fl_add :: "pyfloat \<Rightarrow> pyfloat \<Rightarrow> pyfloat" where
  "fl_add (Fin a) (Fin b) = round_double (a + b)"
| "fl_add NaN _ = NaN"
| "fl_add _ NaN = NaN"
| "fl_add PosInf NegInf = NaN"
| "fl_add NegInf PosInf = NaN"
| "fl_add PosInf _ = PosInf"
| "fl_add NegInf _ = NegInf"
| "fl_add _ PosInf = PosInf"
| "fl_add _ NegInf = NegInf"

definition fl_sub :: "pyfloat \<Rightarrow> pyfloat \<Rightarrow> pyfloat" where
  "fl_sub a b = fl_add a (fl_neg b)"

text \<open>\<^verbatim>\<open>a < b\<close> on floats: false whenever an operand is NaN.\<close>

fun fl_less :: "pyfloat \<Rightarrow> pyfloat \<Rightarrow> bool" where
  "fl_less (Fin a) (Fin b) = (a < b)"
| "fl_less NaN _ = False"
| "fl_less _ NaN = False"
| "fl_less NegInf b = (b \<noteq> NegInf)"
| "fl_less a PosInf = (a \<noteq> PosInf)"
| "fl_less _ _ = False"

text \<open>\<^verbatim>\<open>int(x)\<close> for a float: truncation towards zero; infinities and NaN raise.\<close>

fun py_int :: "pyfloat \<Rightarrow> error + int" where
  "py_int (Fin q) = Inr (if 0 \<le> q then \<lfloor>q\<rfloor> else - \<lfloor>- q\<rfloor>)"
| "py_int PosInf = Inl OverflowError"
| "py_int NegInf = Inl OverflowError"
| "py_int NaN = Inl ValueError"

text \<open>
  \<^verbatim>\<open>float(s)\<close> for a string. Surrounding whitespace is dropped; an underscore must stand
  between two digits; then comes an optional sign followed by \<^verbatim>\<open>inf\<close>, \<^verbatim>\<open>infinity\<close>,
  \<^verbatim>\<open>nan\<close> (in any case) or by a decimal numeral with at least one digit, at most one
  point and an optional exponent. Anything else is a \<open>ValueError\<close>.
\<close>

fun underscores_ok :: "char \<Rightarrow> string \<Rightarrow> bool" where
  "underscores_ok prev [] = (prev \<noteq> CHR ''_'')"
| "underscores_ok prev (c # cs) =
     ((if c = CHR ''_'' then isdecimal prev
       else if prev = CHR ''_'' then isdecimal c else True)
      \<and> underscores_ok c cs)"

definition split_sign :: "string \<Rightarrow> bool \<times> string" where
  "split_sign s =
     (case s of
        [] \<Rightarrow> (False, [])
      | c # cs \<Rightarrow> if c = CHR ''-'' then (True, cs) else if c = CHR ''+'' then (False, cs)
                 else (False, s))"

text \<open>The exponent part: empty, or \<^verbatim>\<open>e\<close>, an optional sign and at least one digit.\<close>

definition parse_exponent :: "string \<Rightarrow> int option" where
  "parse_exponent s =
     (case s of
        [] \<Rightarrow> Some 0
      | c # cs \<Rightarrow>
          if c = CHR ''e'' \<or> c = CHR ''E'' then
            (let (neg, ds) = split_sign cs
             in if str_isdecimal ds
                then Some (if neg then - int (nat_of_digits ds) else int (nat_of_digits ds))
                else None)
          else None)"

definition parse_decimal :: "string \<Rightarrow> rat option" where
  "parse_decimal s =
     (let ip = takeWhile isdecimal s; r1 = dropWhile isdecimal s;
          has_point = (r1 \<noteq> [] \<and> hd r1 = CHR ''.'');
          r2 = (if has_point then tl r1 else r1);
          fp = (if has_point then takeWhile isdecimal r2 else []);
          r3 = (if has_point then dropWhile isdecimal r2 else r2)
      in if ip = [] \<and> fp = [] then None
         else case parse_exponent r3 of
                None \<Rightarrow> None
              | Some ex \<Rightarrow>
                  Some (of_nat (nat_of_digits (ip @ fp)) *
                        (let k = ex - int (length fp)
                         in if 0 \<le> k then 10 ^ nat k else 1 / 10 ^ nat (- k))))"

definition float_of_str :: "string \<Rightarrow> error + pyfloat" where
  "float_of_str s0 =
     (let s = py_strip s0
      in if \<not> underscores_ok CHR ''x'' s then Inl ValueError
         else let (neg, body) = split_sign (remove_char CHR ''_'' s);
                  low = py_lower body;
                  sgn = (\<lambda>f. if neg then fl_neg f else f)
              in if low = ''inf'' \<or> low = ''infinity'' then Inr (sgn PosInf)
                 else if low = ''nan'' then Inr NaN
                 else case parse_decimal body of
                        None \<Rightarrow> Inl ValueError
                      | Some q \<Rightarrow> Inr (sgn (round_double q)))"

text \<open>
  \<^verbatim>\<open>float(x)\<close> on a value: a float is returned as it is, an integer is rounded (and is an
  \<open>OverflowError\<close> when it is too large for a double), a string is parsed, \<^verbatim>\<open>None\<close> is a
  \<open>TypeError\<close>.
\<close>

fun py_float :: "pyval \<Rightarrow> error + pyfloat" where
  "py_float (PFloat f) = Inr f"
| "py_float (PInt n) =
     (case round_double (of_int n) of Fin q \<Rightarrow> Inr (Fin q) | _ \<Rightarrow> Inl OverflowError)"
| "py_float (PStr s) = float_of_str s"
| "py_float PNone = Inl TypeError"


subsection \<open>Dates and times\<close>

text \<open>A naive \<^verbatim>\<open>datetime\<close>; the order is that of the seven fields, read left to right.\<close>

record datetime =
  dt_year :: nat
  dt_month :: nat
  dt_day :: nat
  dt_hour :: nat
  dt_minute :: nat
  dt_second :: nat
  dt_microsecond :: nat

fun lex_less :: "nat list \<Rightarrow> nat list \<Rightarrow> bool" where
  "lex_less (x # xs) (y # ys) = (x < y \<or> (x = y \<and> lex_less xs ys))"
| "lex_less _ _ = False"

definition dt_fields :: "datetime \<Rightarrow> nat list" where
  "dt_fields d =
     [dt_year d, dt_month d, dt_day d, dt_hour d, dt_minute d, dt_second d, dt_microsecond d]"

definition dt_less :: "datetime \<Rightarrow> datetime \<Rightarrow> bool" where
  "dt_less a b = lex_less (dt_fields a) (dt_fields b)"

definition leap_year :: "nat \<Rightarrow> bool" where
  "leap_year y = (y mod 4 = 0 \<and> (y mod 100 \<noteq> 0 \<or> y mod 400 = 0))"

definition days_in_month :: "nat \<Rightarrow> nat \<Rightarrow> nat" where
  "days_in_month y m =
     (if m = 2 then (if leap_year y then 29 else 28)
      else if m = 4 \<or> m = 6 \<or> m = 9 \<or> m = 11 then 30 else 31)"

text \<open>
  \<^verbatim>\<open>datetime.strptime\<close> for the two formats the bot uses. A field is the run of digits
  up to the next separator: four digits for the year, one or two for the others, with the
  value in the range of the directive; \<^verbatim>\<open>%d\<close> also takes a blank followed by one
  digit; the blank of the format stands for any run of whitespace; nothing may follow the
  last field. The date must exist and the second must be below 60.
\<close>

definition take_number :: "nat \<Rightarrow> nat \<Rightarrow> string \<Rightarrow> (nat \<times> string) option" where
  "take_number lo hi s =
     (let ds = takeWhile isdecimal s; v = nat_of_digits ds
      in if (length ds = 1 \<or> length ds = 2) \<and> lo \<le> v \<and> v \<le> hi
         then Some (v, dropWhile isdecimal s) else None)"

definition take_year :: "string \<Rightarrow> (nat \<times> string) option" where
  "take_year s =
     (let ds = takeWhile isdecimal s
      in if length ds = 4 then Some (nat_of_digits ds, dropWhile isdecimal s) else None)"

definition take_day :: "string \<Rightarrow> (nat \<times> string) option" where
  "take_day s =
     (case s of
        c # d # rest \<Rightarrow>
          if c = CHR '' '' \<and> isdecimal d \<and> d \<noteq> CHR ''0''
             \<and> (rest = [] \<or> \<not> isdecimal (hd rest))
          then Some (digit_val d, rest)
          else take_number 1 31 s
      | _ \<Rightarrow> take_number 1 31 s)"

definition expect :: "char \<Rightarrow> string \<Rightarrow> string option" where
  "expect c s = (case s of [] \<Rightarrow> None | x # xs \<Rightarrow> if x = c then Some xs else None)"

definition parse_ymd :: "string \<Rightarrow> ((nat \<times> nat \<times> nat) \<times> string) option" where
  "parse_ymd s =
     (case take_year s of None \<Rightarrow> None | Some (y, s1) \<Rightarrow>
      case expect CHR ''-'' s1 of None \<Rightarrow> None | Some s2 \<Rightarrow>
      case take_number 1 12 s2 of None \<Rightarrow> None | Some (m, s3) \<Rightarrow>
      case expect CHR ''-'' s3 of None \<Rightarrow> None | Some s4 \<Rightarrow>
      case take_day s4 of None \<Rightarrow> None | Some (d, s5) \<Rightarrow> Some ((y, m, d), s5))"

definition parse_hms :: "string \<Rightarrow> (nat \<times> nat \<times> nat) option" where
  "parse_hms s =
     (case take_number 0 23 s of None \<Rightarrow> None | Some (h, s1) \<Rightarrow>
      case expect CHR '':'' s1 of None \<Rightarrow> None | Some s2 \<Rightarrow>
      case take_number 0 59 s2 of None \<Rightarrow> None | Some (mi, s3) \<Rightarrow>
      case expect CHR '':'' s3 of None \<Rightarrow> None | Some s4 \<Rightarrow>
      case take_number 0 61 s4 of None \<Rightarrow> None | Some (sec, s5) \<Rightarrow>
      if s5 = [] then Some (h, mi, sec) else None)"

definition make_datetime :: "nat \<times> nat \<times> nat \<Rightarrow> nat \<times> nat \<times> nat \<Rightarrow> error + datetime" where
  "make_datetime ymd hms =
     (case (ymd, hms) of ((y, m, d), (h, mi, sec)) \<Rightarrow>
        if 1 \<le> y \<and> d \<le> days_in_month y m \<and> sec \<le> 59
        then Inr \<lparr>dt_year = y, dt_month = m, dt_day = d, dt_hour = h, dt_minute = mi,
                  dt_second = sec, dt_microsecond = 0\<rparr>
        else Inl ValueError)"

text \<open>\<^verbatim>\<open>datetime.strptime(t, '%Y-%m-%d %H:%M:%S')\<close>\<close>

definition strptime_datetime :: "string \<Rightarrow> error + datetime" where
  "strptime_datetime t =
     (case parse_ymd t of None \<Rightarrow> Inl ValueError | Some (ymd, s1) \<Rightarrow>
      if takeWhile isspace s1 = [] then Inl ValueError
      else case parse_hms (dropWhile isspace s1) of
             None \<Rightarrow> Inl ValueError
           | Some hms \<Rightarrow> make_datetime ymd hms)"

text \<open>\<^verbatim>\<open>datetime.strptime(t, '%Y-%m-%d')\<close>\<close>

definition strptime_date :: "string \<Rightarrow> error + datetime" where
  "strptime_date t =
     (case parse_ymd t of None \<Rightarrow> Inl ValueError | Some (ymd, s1) \<Rightarrow>
      if s1 = [] then make_datetime ymd (0, 0, 0) else Inl ValueError)"

text \<open>\<^verbatim>\<open>d.strftime('%Y-%m-%d %H:%M:%S')\<close>\<close>

definition strftime :: "datetime \<Rightarrow> string" where
  "strftime d =
     zero_pad 4 (str_nat (dt_year d)) @ ''-'' @ zero_pad 2 (str_nat (dt_month d)) @ ''-'' @
     zero_pad 2 (str_nat (dt_day d)) @ '' '' @ zero_pad 2 (str_nat (dt_hour d)) @ '':'' @
     zero_pad 2 (str_nat (dt_minute d)) @ '':'' @ zero_pad 2 (str_nat (dt_second d))"

text \<open>\<^verbatim>\<open>d - timedelta(days=n)\<close>: \<open>n\<close> steps back of one day; before year 1 it overflows.\<close>

definition prev_day :: "datetime \<Rightarrow> error + datetime" where
  "prev_day d =
     (if 1 < dt_day d then Inr (d\<lparr>dt_day := dt_day d - 1\<rparr>)
      else if 1 < dt_month d
      then Inr (d\<lparr>dt_month := dt_month d - 1,
                  dt_day := days_in_month (dt_year d) (dt_month d - 1)\<rparr>)
      else if 1 < dt_year d
      then Inr (d\<lparr>dt_year := dt_year d - 1, dt_month := 12, dt_day := 31\<rparr>)
      else Inl OverflowError)"

fun minus_days :: "datetime \<Rightarrow> nat \<Rightarrow> error + datetime" where
  "minus_days d 0 = Inr d"
| "minus_days d (Suc n) = (case prev_day d of Inl e \<Rightarrow> Inl e | Inr d' \<Rightarrow> minus_days d' n)"


section \<open>Report aggregation\<close>

text \<open>
  A record of the sheet, as \<^verbatim>\<open>get_all_records\<close> delivers it: a dictionary from column
  names to cell values. \<^verbatim>\<open>r.get(k)\<close> is \<^verbatim>\<open>None\<close> for a missing key.
\<close>

type_synonym row = "string \<rightharpoonup> pyval"

definition get :: "row \<Rightarrow> string \<Rightarrow> pyval" where
  "get r k = (case r k of None \<Rightarrow> PNone | Some v \<Rightarrow> v)"

text \<open>
  The dictionary \<^verbatim>\<open>by_category\<close>, in insertion order. Two keys are the same key when
  Python finds them equal: texts with the same characters, numbers with the same value (so
  that the integer 1 and the float 1.0 are one key). A NaN cell equals no key, each cell
  being an object of its own, so it starts an entry whenever it comes. Storing under a key
  that is already there keeps the key as it was first written.
\<close>

type_synonym catmap = "(pyval \<times> pyfloat) list"

fun key_eq :: "pyval \<Rightarrow> pyval \<Rightarrow> bool" where
  "key_eq (PStr a) (PStr b) = (a = b)"
| "key_eq (PInt a) (PInt b) = (a = b)"
| "key_eq (PInt a) (PFloat (Fin b)) = (of_int a = b)"
| "key_eq (PFloat (Fin a)) (PInt b) = (a = of_int b)"
| "key_eq (PFloat (Fin a)) (PFloat (Fin b)) = (a = b)"
| "key_eq (PFloat PosInf) (PFloat PosInf) = True"
| "key_eq (PFloat NegInf) (PFloat NegInf) = True"
| "key_eq PNone PNone = True"
| "key_eq _ _ = False"

fun dict_get :: "catmap \<Rightarrow> pyval \<Rightarrow> pyfloat \<Rightarrow> pyfloat" where
  "dict_get [] k dflt = dflt"
| "dict_get ((k', v) # m) k dflt = (if key_eq k' k then v else dict_get m k dflt)"

fun dict_set :: "catmap \<Rightarrow> pyval \<Rightarrow> pyfloat \<Rightarrow> catmap" where
  "dict_set [] k v = [(k, v)]"
| "dict_set ((k', v') # m) k v =
     (if key_eq k' k then (k', v) # m else (k', v') # dict_set m k v)"

text \<open>
  What one pass of the loop body of \<^verbatim>\<open>generate_summary\<close> finds in a record before it
  touches the totals: \<open>Inr None\<close> is a \<^verbatim>\<open>continue\<close>, \<open>Inl\<close> an exception raised inside
  the \<^verbatim>\<open>try\<close>, \<open>Inr (Some e)\<close> the branch taken and the values it adds. Nothing can
  raise once the first total has been updated, so the body is this computation followed
  by \<open>add_entry\<close>.
\<close>

datatype entry = Income pyfloat | Expense pyval pyfloat

definition record_time :: "row \<Rightarrow> pyval" where
  "record_time r = py_or (py_or (get r ''Tanggal'') (get r ''tanggal'')) (get r ''Timestamp'')"

definition record_jenis :: "row \<Rightarrow> pyval" where
  "record_jenis r =
     py_or (py_or (get r ''Jenis'') (get r ''jenis'')) (get r ''Jenis (Pemasukan/Pengeluaran)'')"

definition record_jumlah :: "row \<Rightarrow> pyval" where
  "record_jumlah r = py_or (py_or (get r ''Jumlah'') (get r ''jumlah'')) (PInt 0)"

definition record_kategori :: "row \<Rightarrow> pyval" where
  "record_kategori r = py_or (py_or (get r ''Kategori'') (get r ''kategori'')) (PStr ''Lain-lain'')"

text \<open>
  \<^verbatim>\<open>datetime.strptime(t, ...) if ' ' in t else datetime.strptime(t, ...)\<close>; the test
  \<^verbatim>\<open>' ' in t\<close> is a \<open>TypeError\<close> on a number.
\<close>

fun parse_time :: "pyval \<Rightarrow> error + datetime" where
  "parse_time (PStr t) = (if CHR '' '' \<in> set t then strptime_datetime t else strptime_date t)"
| "parse_time _ = Inl TypeError"

text \<open>\<^verbatim>\<open>jenis and jenis.lower().startswith('pemasukan')\<close>, as the condition of the \<^verbatim>\<open>if\<close>.\<close>

fun is_pemasukan :: "pyval \<Rightarrow> error + bool" where
  "is_pemasukan (PStr s) = Inr (s \<noteq> [] \<and> startswith (py_lower s) ''pemasukan'')"
| "is_pemasukan v = (if truthy v then Inl AttributeError else Inr False)"

definition read_entry :: "datetime \<Rightarrow> row \<Rightarrow> error + entry option" where
  "read_entry since_date r =
     (let t = record_time r
      in if \<not> truthy t then Inr None
         else case parse_time t of
                Inl e \<Rightarrow> Inl e
              | Inr dt \<Rightarrow>
                  if dt_less dt since_date then Inr None
                  else let jenis = record_jenis r
                       in case py_float (record_jumlah r) of
                            Inl e \<Rightarrow> Inl e
                          | Inr jumlah \<Rightarrow>
                              let kategori = record_kategori r
                              in case is_pemasukan jenis of
                                   Inl e \<Rightarrow> Inl e
                                 | Inr True \<Rightarrow> Inr (Some (Income jumlah))
                                 | Inr False \<Rightarrow> Inr (Some (Expense kategori jumlah)))"

record summary =
  total_pemasukan :: pyfloat
  total_pengeluaran :: pyfloat
  by_category :: catmap

fun add_entry :: "entry \<Rightarrow> summary \<Rightarrow> summary" where
  "add_entry (Income jumlah) s = s\<lparr>total_pemasukan := fl_add (total_pemasukan s) jumlah\<rparr>"
| "add_entry (Expense kategori jumlah) s =
     s\<lparr>total_pengeluaran := fl_add (total_pengeluaran s) jumlah,
       by_category :=
         dict_set (by_category s) kategori
           (fl_add (dict_get (by_category s) kategori (Fin 0)) jumlah)\<rparr>"

text \<open>One iteration: \<^verbatim>\<open>try: ... except Exception: continue\<close>.\<close>

definition summary_step :: "datetime \<Rightarrow> row \<Rightarrow> summary \<Rightarrow> summary" where
  "summary_step since_date r s =
     (case read_entry since_date r of
        Inr (Some e) \<Rightarrow> add_entry e s
      | Inr None \<Rightarrow> s
      | Inl _ \<Rightarrow> s)"

fun summary_loop :: "datetime \<Rightarrow> row list \<Rightarrow> summary \<Rightarrow> summary" where
  "summary_loop since_date [] s = s"
| "summary_loop since_date (r # rs) s = summary_loop since_date rs (summary_step since_date r s)"

definition generate_summary :: "row list \<Rightarrow> datetime \<Rightarrow> summary" where
  "generate_summary records since_date =
     summary_loop since_date records
       \<lparr>total_pemasukan = Fin 0, total_pengeluaran = Fin 0, by_category = []\<rparr>"

section \<open>The CSV attachment\<close>

text \<open>
  \<^verbatim>\<open>csv.writer\<close> with its default dialect: a cell is turned into text, put between
  double quotes (with every double quote doubled) when it holds a comma, a double quote, a
  carriage return or a line feed, the cells are joined by commas, and the row ends with
  carriage return and line feed. The text of a float cell is given by \<open>float_repr\<close>.
\<close>

definition CR :: char where "CR = CHR 0x0D"
definition LF :: char where "LF = CHR 0x0A"

fun str_of :: "(pyfloat \<Rightarrow> string) \<Rightarrow> pyval \<Rightarrow> string" where
  "str_of float_repr (PStr s) = s"
| "str_of float_repr (PInt n) = str_int n"
| "str_of float_repr (PFloat f) = float_repr f"
| "str_of float_repr PNone = ''None''"

fun csv_text :: "(pyfloat \<Rightarrow> string) \<Rightarrow> pyval \<Rightarrow> string" where
  "csv_text float_repr PNone = []"
| "csv_text float_repr v = str_of float_repr v"

definition needs_quotes :: "string \<Rightarrow> bool" where
  "needs_quotes s = list_ex (\<lambda>c. c = CHR '','' \<or> c = CHR 0x22 \<or> c = CR \<or> c = LF) s"

definition csv_quote :: "string \<Rightarrow> string" where
  "csv_quote s =
     (if needs_quotes s
      then [CHR 0x22] @ concat (map (\<lambda>c. if c = CHR 0x22 then [c, c] else [c]) s) @ [CHR 0x22]
      else s)"

fun join_commas :: "string list \<Rightarrow> string" where
  "join_commas [] = []"
| "join_commas [x] = x"
| "join_commas (x # y # xs) = x @ '','' @ join_commas (y # xs)"

definition writerow :: "string list \<Rightarrow> string" where
  "writerow cells =
     (if cells = [[]] then [CHR 0x22, CHR 0x22] else join_commas (map csv_quote cells)) @ [CR, LF]"

definition csv_header :: "string list" where
  "csv_header = [''Tanggal'', ''Jenis'', ''Jumlah'', ''Kategori'', ''Deskripsi'', ''User'']"

definition csv_cells :: "row \<Rightarrow> pyval list" where
  "csv_cells r =
     [py_or (py_or (get r ''Tanggal'') (get r ''tanggal'')) (PStr []),
      py_or (py_or (get r ''Jenis'') (get r ''jenis'')) (PStr []),
      py_or (py_or (get r ''Jumlah'') (get r ''jumlah'')) (PStr []),
      py_or (py_or (get r ''Kategori'') (get r ''kategori'')) (PStr []),
      py_or (py_or (get r ''Deskripsi'') (get r ''deskripsi'')) (PStr []),
      py_or (py_or (get r ''User'') (get r ''user'')) (PStr [])]"

definition csv_record_line :: "(pyfloat \<Rightarrow> string) \<Rightarrow> row \<Rightarrow> string" where
  "csv_record_line float_repr r = writerow (map (csv_text float_repr) (csv_cells r))"

text \<open>The block that both report handlers run over the records they have read.\<close>

definition render_csv :: "(pyfloat \<Rightarrow> string) \<Rightarrow> row list \<Rightarrow> string" where
  "render_csv float_repr records =
     writerow csv_header @ concat (map (csv_record_line float_repr) records)"


section \<open>The bot and its surroundings\<close>

text \<open>
  The state the handlers read and write. \<open>user_data\<close> is \<^verbatim>\<open>context.user_data\<close> of the
  chatting user: the module stores a float under \<^verbatim>\<open>'jumlah'\<close> and texts under the other
  three keys, and a key that was never stored is \<open>None\<close>. \<open>outbox\<close> holds the replies
  sent, \<open>log\<close> the messages of \<^verbatim>\<open>logger.exception\<close> with the exception logged.
  The remote sheet is described by what its calls meet: \<open>open_error\<close> is the exception
  of loading the credentials, authorising or opening the spreadsheet, \<open>worksheet_error\<close>
  that of the worksheet lookup, \<open>append_error\<close> and \<open>read_result\<close> the outcome of
  \<^verbatim>\<open>append_row\<close> and \<^verbatim>\<open>get_all_records\<close>. \<open>append_calls\<close> lists the rows passed to
  \<^verbatim>\<open>append_row\<close>, \<open>sheet_rows\<close> the rows the sheet has accepted. \<open>utcnow\<close> is the clock.
  Reply keyboards are left out of the replies.
\<close>

record user_data =
  ud_jumlah :: "pyfloat option"
  ud_jenis :: "string option"
  ud_kategori :: "string option"
  ud_deskripsi :: "string option"

datatype reply = Text string | Document string string

record world =
  udata :: user_data
  outbox :: "reply list"
  log :: "(string \<times> error) list"
  open_error :: "error option"
  worksheet_error :: "error option"
  append_error :: "error option"
  read_result :: "error + row list"
  sheet_url :: string
  append_calls :: "pyval list list"
  sheet_rows :: "pyval list list"
  utcnow :: datetime

datatype message = Plain string | Command string

record update =
  msg :: message
  from_user :: int

definition msg_text :: "update \<Rightarrow> string" where
  "msg_text u = (case msg u of Plain t \<Rightarrow> t | Command c \<Rightarrow> CHR ''/'' # c)"

definition reply_text :: "string \<Rightarrow> world \<Rightarrow> world" where
  "reply_text t w = w\<lparr>outbox := outbox w @ [Text t]\<rparr>"

definition reply_document :: "string \<Rightarrow> string \<Rightarrow> world \<Rightarrow> world" where
  "reply_document name content w = w\<lparr>outbox := outbox w @ [Document name content]\<rparr>"

subsection \<open>Google Sheets helpers\<close>

definition init_gspread :: "world \<Rightarrow> error + unit" where
  "init_gspread w =
     (case open_error w of
        Some e \<Rightarrow> Inl e
      | None \<Rightarrow> (case worksheet_error w of Some e \<Rightarrow> Inl e | None \<Rightarrow> Inr ()))"

text \<open>\<^verbatim>\<open>sheet.append_row(row)\<close> and \<^verbatim>\<open>sheet.get_all_records()\<close>, the calls of the library.\<close>

definition sheet_append_row :: "pyval list \<Rightarrow> world \<Rightarrow> (error + unit) \<times> world" where
  "sheet_append_row r w =
     (case append_error w of
        Some e \<Rightarrow> (Inl e, w\<lparr>append_calls := append_calls w @ [r]\<rparr>)
      | None \<Rightarrow> (Inr (), w\<lparr>append_calls := append_calls w @ [r],
                           sheet_rows := sheet_rows w @ [r]\<rparr>))"

definition sheet_get_all_records :: "world \<Rightarrow> error + row list" where
  "sheet_get_all_records w = read_result w"

definition append_transaction :: "pyval list \<Rightarrow> world \<Rightarrow> (error + bool) \<times> world" where
  "append_transaction r w =
     (case sheet_append_row r w of
        (Inr _, w') \<Rightarrow> (Inr True, w')
      | (Inl e, w') \<Rightarrow>
          (Inr False, w'\<lparr>log := log w' @ [(''Gagal menulis ke Google Sheets: %s'', e)]\<rparr>))"

definition read_all_transactions :: "world \<Rightarrow> (error + row list) \<times> world" where
  "read_all_transactions w =
     (case sheet_get_all_records w of
        Inr records \<Rightarrow> (Inr records, w)
      | Inl e \<Rightarrow> (Inr [], w\<lparr>log := log w @ [(''Gagal membaca sheet: %s'', e)]\<rparr>))"

subsection \<open>The conversation of \<^verbatim>\<open>/catat\<close>\<close>

datatype conv_state = JUMLAH | JENIS | KATEGORI | DESKRIPSI | KONFIRM | END

definition catat_start :: "update \<Rightarrow> world \<Rightarrow> (error + conv_state) \<times> world" where
  "catat_start u w =
     (Inr JUMLAH, reply_text ''Masukin jumlah (tanpa tanda, contoh: 20000):'' w)"

definition catat_jumlah :: "update \<Rightarrow> world \<Rightarrow> (error + conv_state) \<times> world" where
  "catat_jumlah u w =
     (let text = remove_char CHR '','' (py_strip (msg_text u))
      in if \<not> str_isdigit (remove_char CHR ''.'' text)
         then (Inr JUMLAH, reply_text ''Jumlah tidak valid. Masukin angka saja, contoh: 20000'' w)
         else case float_of_str text of
                Inl e \<Rightarrow> (Inl e, w)
              | Inr f \<Rightarrow>
                  (Inr JENIS,
                   reply_text ''Jenis transaksi? (pemasukan / pengeluaran)''
                     (w\<lparr>udata := (udata w)\<lparr>ud_jumlah := Some f\<rparr>\<rparr>)))"

definition catat_jenis :: "update \<Rightarrow> world \<Rightarrow> (error + conv_state) \<times> world" where
  "catat_jenis u w =
     (let jenis = py_lower (py_strip (msg_text u))
      in if \<not> (jenis = ''pemasukan'' \<or> jenis = ''pengeluaran'')
         then (Inr JENIS, reply_text ''Pilih 'pemasukan' atau 'pengeluaran'.'' w)
         else (Inr KATEGORI,
               reply_text ''Kategori (contoh: makan, transport, gaji, jualan):''
                 (w\<lparr>udata := (udata w)\<lparr>ud_jenis := Some jenis\<rparr>\<rparr>)))"

definition catat_kategori :: "update \<Rightarrow> world \<Rightarrow> (error + conv_state) \<times> world" where
  "catat_kategori u w =
     (let kategori = py_strip (msg_text u)
      in (Inr DESKRIPSI,
          reply_text ''Deskripsi singkat (opsional):''
            (w\<lparr>udata := (udata w)\<lparr>ud_kategori := Some kategori\<rparr>\<rparr>)))"

text \<open>\<^verbatim>\<open>str(x)\<close> of a stored text, \<^verbatim>\<open>None\<close> when the key is missing.\<close>

definition str_opt :: "string option \<Rightarrow> string" where
  "str_opt x = (case x of None \<Rightarrow> ''None'' | Some s \<Rightarrow> s)"

text \<open>\<^verbatim>\<open>int(x)\<close> of the stored amount; \<^verbatim>\<open>int(None)\<close> is a \<open>TypeError\<close>.\<close>

definition int_opt :: "pyfloat option \<Rightarrow> error + int" where
  "int_opt x = (case x of None \<Rightarrow> Inl TypeError | Some f \<Rightarrow> py_int f)"

definition catat_deskripsi :: "update \<Rightarrow> world \<Rightarrow> (error + conv_state) \<times> world" where
  "catat_deskripsi u w =
     (let deskripsi = py_strip (msg_text u);
          w1 = w\<lparr>udata := (udata w)\<lparr>ud_deskripsi := Some deskripsi\<rparr>\<rparr>;
          jumlah = ud_jumlah (udata w1);
          jenis = ud_jenis (udata w1);
          kategori = ud_kategori (udata w1)
      in case int_opt jumlah of
           Inl e \<Rightarrow> (Inl e, w1)
         | Inr n \<Rightarrow>
             (Inr KONFIRM,
              reply_text
                (''Konfirmasi: '' @ str_opt jenis @ '' Rp'' @ str_int n @ '' - '' @
                 str_opt kategori @ '' - '' @ (if deskripsi \<noteq> [] then deskripsi else ''-'') @
                 [LF, LF] @ ''Ketik 'ya' untuk konfirmasi atau 'batal' untuk batalkan.'')
                w1))"

text \<open>\<^verbatim>\<open>context.user_data[k]\<close>: a \<open>KeyError\<close> when the key is missing.\<close>

definition subscript :: "'a option \<Rightarrow> error + 'a" where
  "subscript x = (case x of None \<Rightarrow> Inl KeyError | Some v \<Rightarrow> Inr v)"

text \<open>
  The row of \<^verbatim>\<open>catat_konfirm\<close>, its cells evaluated from left to right. The assignment
  to \<^verbatim>\<open>now\<close> on the line before it is never read and has no counterpart here; in the
  source that line ends in a stray backquote, which Python 3 does not parse, and the model
  reads the function as it is meant.
\<close>

definition konfirm_row :: "update \<Rightarrow> world \<Rightarrow> error + pyval list" where
  "konfirm_row u w =
     (case subscript (ud_jenis (udata w)) of Inl e \<Rightarrow> Inl e | Inr jenis \<Rightarrow>
      case subscript (ud_jumlah (udata w)) of Inl e \<Rightarrow> Inl e | Inr jumlah \<Rightarrow>
      case py_int jumlah of Inl e \<Rightarrow> Inl e | Inr n \<Rightarrow>
      case subscript (ud_kategori (udata w)) of Inl e \<Rightarrow> Inl e | Inr kategori \<Rightarrow>
      case subscript (ud_deskripsi (udata w)) of Inl e \<Rightarrow> Inl e | Inr deskripsi \<Rightarrow>
        Inr [PStr (strftime (utcnow w)), PStr jenis, PInt n, PStr kategori, PStr deskripsi,
             PInt (from_user u)])"

definition affirmative :: "string \<Rightarrow> bool" where
  "affirmative text = (text = ''ya'' \<or> text = ''y'' \<or> text = ''yes'')"

definition catat_konfirm :: "update \<Rightarrow> world \<Rightarrow> (error + conv_state) \<times> world" where
  "catat_konfirm u w =
     (let text = py_lower (py_strip (msg_text u))
      in if \<not> affirmative text then (Inr END, reply_text ''Transaksi dibatalkan.'' w)
         else case init_gspread w of
                Inl e \<Rightarrow> (Inl e, w)
              | Inr sheet \<Rightarrow>
                  (case konfirm_row u w of
                     Inl e \<Rightarrow> (Inl e, w)
                   | Inr r \<Rightarrow>
                       (case append_transaction r w of
                          (Inl e, w') \<Rightarrow> (Inl e, w')
                        | (Inr ok, w') \<Rightarrow>
                            if ok
                            then (Inr END,
                                  reply_text ''Sukses! Transaksi tersimpan ke Google Sheets.'' w')
                            else (Inr END,
                                  reply_text ''Gagal menyimpan transaksi. Coba lagi nanti.'' w'))))"

definition cancel :: "update \<Rightarrow> world \<Rightarrow> (error + conv_state) \<times> world" where
  "cancel u w = (Inr END, reply_text ''Oke, dibatalkan.'' w)"

text \<open>
  The \<^verbatim>\<open>ConversationHandler\<close> set up in \<^verbatim>\<open>main\<close>: \<^verbatim>\<open>/catat\<close> enters it, in a state a
  plain text goes to the handler of the state, \<^verbatim>\<open>/cancel\<close> to the fallback, and any other
  update is not for the conversation. The state returned by the handler becomes the state
  of the conversation; when the handler raises, the state stays as it was. \<open>END\<close> means
  that no conversation is active.
\<close>

fun state_handler :: "conv_state \<Rightarrow> update \<Rightarrow> world \<Rightarrow> (error + conv_state) \<times> world" where
  "state_handler JUMLAH = catat_jumlah"
| "state_handler JENIS = catat_jenis"
| "state_handler KATEGORI = catat_kategori"
| "state_handler DESKRIPSI = catat_deskripsi"
| "state_handler KONFIRM = catat_konfirm"
| "state_handler END = (\<lambda>u w. (Inr END, w))"

definition run_handler ::
  "(update \<Rightarrow> world \<Rightarrow> (error + conv_state) \<times> world) \<Rightarrow> update \<Rightarrow> conv_state \<times> world
    \<Rightarrow> conv_state \<times> world" where
  "run_handler h u cw =
     (case h u (snd cw) of
        (Inr s', w') \<Rightarrow> (s', w')
      | (Inl e, w') \<Rightarrow> (fst cw, w'))"

definition conv_handler :: "update \<Rightarrow> conv_state \<times> world \<Rightarrow> conv_state \<times> world" where
  "conv_handler u cw =
     (case msg u of
        Command c \<Rightarrow>
          if fst cw = END then (if c = ''catat'' then run_handler catat_start u cw else cw)
          else (if c = ''cancel'' then run_handler cancel u cw else cw)
      | Plain t \<Rightarrow>
          if fst cw = END then cw else run_handler (state_handler (fst cw)) u cw)"

text \<open>A run of the dialog: the updates of one user, handled in order.\<close>

fun run_dialog :: "update list \<Rightarrow> conv_state \<times> world \<Rightarrow> conv_state \<times> world" where
  "run_dialog [] cw = cw"
| "run_dialog (u # us) cw = run_dialog us (conv_handler u cw)"


subsection \<open>The report handlers and \<^verbatim>\<open>/sheet\<close>\<close>

text \<open>
  \<^verbatim>\<open>sorted(by_cat.items(), key=lambda x: x[1], reverse=True)\<close>: by falling total, entries
  of equal total in the order of the dictionary.
\<close>

fun insert_item :: "pyval \<times> pyfloat \<Rightarrow> catmap \<Rightarrow> catmap" where
  "insert_item x [] = [x]"
| "insert_item x (y # ys) = (if fl_less (snd y) (snd x) then x # y # ys else y # insert_item x ys)"

definition sorted_items :: "catmap \<Rightarrow> catmap" where
  "sorted_items m = foldl (\<lambda>acc x. insert_item x acc) [] m"

fun item_lines :: "(pyfloat \<Rightarrow> string) \<Rightarrow> catmap \<Rightarrow> error + string" where
  "item_lines float_repr [] = Inr []"
| "item_lines float_repr ((k, v) # items) =
     (case py_int v of
        Inl e \<Rightarrow> Inl e
      | Inr n \<Rightarrow>
          (case item_lines float_repr items of
             Inl e \<Rightarrow> Inl e
           | Inr rest \<Rightarrow> Inr (''- '' @ str_of float_repr k @ '': Rp'' @ str_int n @ [LF] @ rest)))"

definition report_text ::
  "(pyfloat \<Rightarrow> string) \<Rightarrow> string \<Rightarrow> nat \<Rightarrow> summary \<Rightarrow> error + string" where
  "report_text float_repr title n s =
     (case py_int (total_pemasukan s) of Inl e \<Rightarrow> Inl e | Inr p \<Rightarrow>
      case py_int (total_pengeluaran s) of Inl e \<Rightarrow> Inl e | Inr q \<Rightarrow>
      case py_int (fl_sub (total_pemasukan s) (total_pengeluaran s)) of Inl e \<Rightarrow> Inl e | Inr b \<Rightarrow>
      let head = title @ [LF] @ ''Pemasukan: Rp'' @ str_int p @ [LF] @
                 ''Pengeluaran: Rp'' @ str_int q @ [LF] @
                 ''Saldo bersih: Rp'' @ str_int b @ [LF, LF] @
                 ''Top kategori pengeluaran:'' @ [LF];
          items = take n (sorted_items (by_category s))
      in if items \<noteq> []
         then (case item_lines float_repr items of
                 Inl e \<Rightarrow> Inl e
               | Inr ls \<Rightarrow> Inr (head @ ls))
         else Inr (head @ ''Tidak ada pengeluaran tercatat.'' @ [LF]))"

text \<open>
  \<^verbatim>\<open>laporan_minggu\<close> and \<^verbatim>\<open>laporan_bulan\<close> are the same text but for the number of days,
  the title, the number of categories shown and the name of the file.
\<close>

definition laporan ::
  "nat \<Rightarrow> string \<Rightarrow> nat \<Rightarrow> string \<Rightarrow> (pyfloat \<Rightarrow> string) \<Rightarrow> update \<Rightarrow> world
    \<Rightarrow> (error + unit) \<times> world" where
  "laporan days title n filename float_repr u w =
     (case init_gspread w of
        Inl e \<Rightarrow> (Inl e, w)
      | Inr sheet \<Rightarrow>
          (case read_all_transactions w of
             (Inl e, w1) \<Rightarrow> (Inl e, w1)
           | (Inr records, w1) \<Rightarrow>
               (case minus_days (utcnow w1) days of
                  Inl e \<Rightarrow> (Inl e, w1)
                | Inr since \<Rightarrow>
                    (case report_text float_repr title n (generate_summary records since) of
                       Inl e \<Rightarrow> (Inl e, w1)
                     | Inr text \<Rightarrow>
                         (Inr (),
                          reply_document filename (render_csv float_repr records)
                            (reply_text text w1))))))"

definition laporan_minggu ::
  "(pyfloat \<Rightarrow> string) \<Rightarrow> update \<Rightarrow> world \<Rightarrow> (error + unit) \<times> world" where
  "laporan_minggu = laporan 7 ''Ringkasan 7 hari terakhir:'' 5 ''laporan_mingguan.csv''"

definition laporan_bulan ::
  "(pyfloat \<Rightarrow> string) \<Rightarrow> update \<Rightarrow> world \<Rightarrow> (error + unit) \<times> world" where
  "laporan_bulan = laporan 30 ''Ringkasan 30 hari terakhir:'' 10 ''laporan_bulanan.csv''"

definition sheet_link :: "update \<Rightarrow> world \<Rightarrow> (error + unit) \<times> world" where
  "sheet_link u w =
     (case open_error w of
        None \<Rightarrow>
          (Inr (),
           reply_text
             (''Link Google Sheet: '' @ sheet_url w @ [LF] @
              ''Pastikan sheet sudah di-share ke service account (kamu sudah lakukan sebelumnya).'')
             w)
      | Some e \<Rightarrow>
          (Inr (),
           reply_text ''Gagal mendapatkan link spreadsheet. Cek credential dan nama spreadsheet.''
             (w\<lparr>log := log w @ [(''Gagal dapatkan link: %s'', e)]\<rparr>)))"

section \<open>Inputs used in the examples\<close>

definition no_data :: user_data where
  "no_data = \<lparr>ud_jumlah = None, ud_jenis = None, ud_kategori = None, ud_deskripsi = None\<rparr>"

definition noon :: datetime where
  "noon = \<lparr>dt_year = 2024, dt_month = 3, dt_day = 5, dt_hour = 12, dt_minute = 0,
           dt_second = 0, dt_microsecond = 0\<rparr>"

text \<open>A sheet that can be reached and accepts every call, with no rows yet.\<close>

definition good_world :: world where
  "good_world =
     \<lparr>udata = no_data, outbox = [], log = [], open_error = None, worksheet_error = None,
      append_error = None, read_result = Inr [], sheet_url = ''https://sheet'',
      append_calls = [], sheet_rows = [], utcnow = noon\<rparr>"

definition plain :: "string \<Rightarrow> update" where
  "plain t = \<lparr>msg = Plain t, from_user = 42\<rparr>"

definition command :: "string \<Rightarrow> update" where
  "command c = \<lparr>msg = Command c, from_user = 42\<rparr>"

text \<open>The dialog of the example in the specification.\<close>

definition nasi_dialog :: "update list" where
  "nasi_dialog =
     [command ''catat'', plain ''20000'', plain ''pengeluaran'', plain ''makan'', plain ''nasi'',
      plain ''ya'']"

definition christmas :: datetime where
  "christmas = \<lparr>dt_year = 2023, dt_month = 12, dt_day = 25, dt_hour = 0, dt_minute = 0,
                dt_second = 0, dt_microsecond = 0\<rparr>"


text \<open>The stored fields of the example dialog, and a bot whose credential file is missing.\<close>

definition nasi_data :: user_data where
  "nasi_data =
     \<lparr>ud_jumlah = Some (Fin 20000), ud_jenis = Some ''pengeluaran'',
      ud_kategori = Some ''makan'', ud_deskripsi = Some ''nasi''\<rparr>"

definition no_credentials :: world where
  "no_credentials = good_world\<lparr>udata := nasi_data, open_error := Some AuthError\<rparr>"

definition sample_repr :: "pyfloat \<Rightarrow> string" where
  "sample_repr f = ''0.0''"

text \<open>Records of a sheet: an income, a record with no type, and one whose amount is no number.\<close>

definition gaji_record :: row where
  "gaji_record =
     [''Tanggal'' \<mapsto> PStr ''2024-01-01 10:00:00'', ''Jenis'' \<mapsto> PStr ''Pemasukan'',
      ''Jumlah'' \<mapsto> PInt 50000, ''Kategori'' \<mapsto> PStr ''gaji'']"

definition blank_record :: row where
  "blank_record =
     [''Tanggal'' \<mapsto> PStr ''2024-01-01'', ''Jenis'' \<mapsto> PStr [], ''Jumlah'' \<mapsto> PInt 7000]"

definition abc_record :: row where
  "abc_record = [''Tanggal'' \<mapsto> PStr ''2024-01-01'', ''Jumlah'' \<mapsto> PStr ''abc'']"

text \<open>
  A record whose type cell holds a number, an expense with a category, and two expenses
  whose categories are the integer 1 and the float 1.0.
\<close>

definition numeric_type_record :: row where
  "numeric_type_record =
     [''Tanggal'' \<mapsto> PStr ''2024-01-01'', ''Jenis'' \<mapsto> PInt 5, ''Jumlah'' \<mapsto> PInt 10]"

definition makan_record :: row where
  "makan_record =
     [''Tanggal'' \<mapsto> PStr ''2024-01-02 08:30:00'', ''Jenis'' \<mapsto> PStr ''pengeluaran'',
      ''Jumlah'' \<mapsto> PInt 5000, ''Kategori'' \<mapsto> PStr ''makan'']"

definition one_int_record :: row where
  "one_int_record =
     [''Tanggal'' \<mapsto> PStr ''2024-01-01'', ''Jumlah'' \<mapsto> PInt 10, ''Kategori'' \<mapsto> PInt 1]"

definition one_float_record :: row where
  "one_float_record =
     [''Tanggal'' \<mapsto> PStr ''2024-01-01'', ''Jumlah'' \<mapsto> PInt 20,
      ''Kategori'' \<mapsto> PFloat (Fin 1)]"

definition new_year :: datetime where
  "new_year = \<lparr>dt_year = 2024, dt_month = 1, dt_day = 1, dt_hour = 0, dt_minute = 0,
               dt_second = 0, dt_microsecond = 0\<rparr>"

section \<open>Notions used in the statements\<close>

text \<open>
  An update is an affirmative confirmation when the conversation is in \<open>KONFIRM\<close> and the
  update is a plain text that \<^verbatim>\<open>catat_konfirm\<close> takes for a yes. \<open>affirmed_in\<close> tells
  whether a run of the dialog contains one.
\<close>

definition confirms :: "update \<Rightarrow> conv_state \<Rightarrow> bool" where
  "confirms u s =
     (s = KONFIRM \<and>
      (case msg u of Plain t \<Rightarrow> affirmative (py_lower (py_strip t)) | Command c \<Rightarrow> False))"

fun affirmed_in :: "update list \<Rightarrow> conv_state \<times> world \<Rightarrow> bool" where
  "affirmed_in [] cw = False"
| "affirmed_in (u # us) cw = (confirms u (fst cw) \<or> affirmed_in us (conv_handler u cw))"

text \<open>What the earlier states of a conversation have stored by the time it is in a state.\<close>

fun fields_ready :: "conv_state \<Rightarrow> user_data \<Rightarrow> bool" where
  "fields_ready JENIS d = (ud_jumlah d \<noteq> None)"
| "fields_ready KATEGORI d = (ud_jumlah d \<noteq> None \<and> ud_jenis d \<noteq> None)"
| "fields_ready DESKRIPSI d = (ud_jumlah d \<noteq> None \<and> ud_jenis d \<noteq> None \<and> ud_kategori d \<noteq> None)"
| "fields_ready KONFIRM d =
     ((case int_opt (ud_jumlah d) of Inr n \<Rightarrow> True | Inl e \<Rightarrow> False)
      \<and> ud_jenis d \<noteq> None \<and> ud_kategori d \<noteq> None \<and> ud_deskripsi d \<noteq> None)"
| "fields_ready JUMLAH d = True"
| "fields_ready END d = True"

text \<open>The number of line feeds of a text, and a record whose description has two lines.\<close>

definition count_lf :: "string \<Rightarrow> nat" where
  "count_lf s = length (filter (\<lambda>c. c = LF) s)"

definition multiline_record :: row where
  "multiline_record = [''Deskripsi'' \<mapsto> PStr [CHR ''a'', LF, CHR ''b'']]"

text \<open>
  \<^verbatim>\<open>sum(by_category.values())\<close>, the amounts of the records that a summary counts as
  expenses, and three expenses, the first so large that adding 1 to it is lost in rounding.
\<close>

definition values_sum :: "catmap \<Rightarrow> pyfloat" where
  "values_sum m = foldl fl_add (Fin 0) (map snd m)"

fun expense_amounts :: "datetime \<Rightarrow> row list \<Rightarrow> pyfloat list" where
  "expense_amounts since_date [] = []"
| "expense_amounts since_date (r # rs) =
     (case read_entry since_date r of
        Inr (Some (Expense k a)) \<Rightarrow> a # expense_amounts since_date rs
      | _ \<Rightarrow> expense_amounts since_date rs)"

definition rounding_records :: "row list" where
  "rounding_records =
     [[''Tanggal'' \<mapsto> PStr ''2024-01-01'', ''Jumlah'' \<mapsto> PInt 10000000000000000,
       ''Kategori'' \<mapsto> PStr ''a''],
      [''Tanggal'' \<mapsto> PStr ''2024-01-01'', ''Jumlah'' \<mapsto> PInt 1, ''Kategori'' \<mapsto> PStr ''b''],
      [''Tanggal'' \<mapsto> PStr ''2024-01-01'', ''Jumlah'' \<mapsto> PInt 1, ''Kategori'' \<mapsto> PStr ''b'']]"

text \<open>A store that refuses every write, and a dialog that ends with a refusal of the user.\<close>

definition rejecting_world :: world where
  "rejecting_world = good_world\<lparr>append_error := Some APIError\<rparr>"

definition nasi_fields :: "update list" where
  "nasi_fields =
     [command ''catat'', plain ''20000'', plain ''pengeluaran'', plain ''makan'', plain ''nasi'']"

definition batal_dialog :: "update list" where
  "batal_dialog =
     [command ''catat'', plain ''20000'', plain ''pengeluaran'', plain ''makan'', plain ''nasi'',
      plain ''batal'']"

section \<open>Facts about the builtins\<close>

lemmas str_defs = py_strip_def isspace_def isdigit_def isdecimal_def remove_char_def
  py_lower_def lower_char_def str_isdigit_def str_isdecimal_def msg_text_def plain_def
  command_def

lemma strip_lower_ya: "py_lower (py_strip ''ya'') = ''ya''"
  by (simp add: py_lower_def py_strip_def isspace_def lower_char_def)

lemma digits_of_numeral:
  "digits_of (numeral k) n =
     (if n < 10 then [char_of (48 + n)]
      else digits_of (pred_numeral k) (n div 10) @ [char_of (48 + n mod 10)])"
  by (simp add: numeral_eq_Suc)

lemmas char_simps = char_of_def bit_Suc_0_iff

lemma str_int_20000: "str_int 20000 = ''20000''"
  by (simp add: str_int_def str_nat_def digits_of_numeral char_simps)

lemma strftime_noon: "strftime noon = ''2024-03-05 12:00:00''"
  by (simp add: strftime_def noon_def zero_pad_def str_nat_def digits_of_numeral char_simps)

lemmas handler_defs = conv_handler_def run_handler_def catat_start_def catat_jumlah_def
  catat_jenis_def catat_kategori_def catat_deskripsi_def catat_konfirm_def cancel_def
  reply_text_def int_opt_def str_opt_def subscript_def konfirm_row_def affirmative_def
  init_gspread_def append_transaction_def sheet_append_row_def

lemma bit_length_bounds:
  "0 < n \<Longrightarrow> 2 ^ (bit_length n - 1) \<le> n \<and> n < 2 ^ bit_length n"
proof (induction n rule: bit_length.induct)
  case (1 n)
  show ?case
  proof (cases "n div 2 = 0")
    case True
    with "1.prems" have "n = 1" by presburger
    then show ?thesis by (simp add: bit_length.simps)
  next
    case False
    then have pos: "0 < n div 2" by simp
    from "1.prems" have "n \<noteq> 0" by simp
    from "1.IH" [OF this pos]
    have ih: "2 ^ (bit_length (n div 2) - 1) \<le> n div 2" "n div 2 < 2 ^ bit_length (n div 2)"
      by simp_all
    have bl: "bit_length n = Suc (bit_length (n div 2))"
      using \<open>n \<noteq> 0\<close> by (subst bit_length.simps) simp
    have "0 < bit_length (n div 2)"
      using pos by (subst bit_length.simps) simp
    then obtain k where k: "bit_length (n div 2) = Suc k"
      by (cases "bit_length (n div 2)") simp_all
    from ih k have "2 ^ k \<le> n div 2" "n div 2 < 2 * 2 ^ k" by simp_all
    then have "2 * 2 ^ k \<le> n" "n < 2 * (2 * 2 ^ k)" by presburger+
    then show ?thesis by (simp add: bl k)
  qed
qed

lemma bit_length_le_53:
  assumes "n < 2 ^ 53"
  shows "bit_length n \<le> 53"
proof (cases "n = 0")
  case True
  then show ?thesis by (simp add: bit_length.simps)
next
  case False
  then have "2 ^ (bit_length n - 1) \<le> n" using bit_length_bounds by simp
  with assms have "(2::nat) ^ (bit_length n - 1) < 2 ^ 53" by simp
  then have "bit_length n - 1 < 53" by (simp only: power_strict_increasing_iff)
  then show ?thesis by simp
qed

lemma round_half_even_int: "round_half_even (of_int k) = k"
  by (simp add: round_half_even_def)

lemma round_double_exact_nat:
  assumes "n < 2 ^ 53"
  shows "round_double (of_nat n) = Fin (of_nat n)"
proof (cases "n = 0")
  case True
  then show ?thesis by (simp add: round_double_def)
next
  case False
  then have pos: "0 < n" by simp
  define b where "b = bit_length n"
  have b53: "b \<le> 53" unfolding b_def using assms by (rule bit_length_le_53)
  have b1: "1 \<le> b" unfolding b_def using pos by (subst bit_length.simps) simp
  define k where "k = 53 - b"
  have bin: "binade (of_nat n) = int b - 1"
    using pos by (simp add: binade_def b_def)
  have mx: "max (int b - 1) (- 1022) - 52 = - int k"
    using b1 b53 by (simp add: k_def)
  have u: "pow2 (- int k) = 1 / 2 ^ k"
    by (simp add: pow2_def)
  have scaled: "(of_nat n :: rat) / (1 / 2 ^ k) = of_int (int (n * 2 ^ k))"
    by simp
  have unscale: "(of_int (int (n * 2 ^ k)) :: rat) * (1 / 2 ^ k) = of_nat n"
    by simp
  have small: "\<not> (2 ^ 1024 \<le> (of_nat n :: rat))"
  proof -
    have "(of_nat n :: rat) < of_nat (2 ^ 53)" using assms by (simp only: of_nat_less_iff)
    then show ?thesis by simp
  qed
  have ne: "(of_nat n :: rat) \<noteq> 0" "(0::rat) < of_nat n" using pos by simp_all
  show ?thesis
    unfolding round_double_def Let_def
    using ne small
    by (simp only: abs_of_nat bin mx u scaled round_half_even_int unscale if_False if_True)
qed

lemma floor_rat_numeral_div:
  "\<lfloor>(numeral a :: rat) / numeral b\<rfloor> = numeral a div numeral b"
  using floor_divide_of_int_eq [of "numeral a" "numeral b", where ?'a = rat] by simp

lemma float_20000: "float_of_str ''20000'' = Inr (Fin 20000)"
proof -
  have "round_double 20000 = Fin 20000"
    using round_double_exact_nat [of 20000] by simp
  then show ?thesis
    by (simp add: float_of_str_def py_strip_def isspace_def isdecimal_def remove_char_def
        split_sign_def py_lower_def lower_char_def parse_decimal_def parse_exponent_def
        nat_of_digits_def digit_val_def)
qed

text \<open>Two sums that are not exact: a tie goes to the even neighbour.\<close>

lemma round_tie_even: "fl_add (Fin 10000000000000000) (Fin 1) = Fin 10000000000000000"
proof -
  have b: "binade 10000000000000001 = 53"
    by (simp add: binade_def bit_length.simps)
  show ?thesis
    apply simp
    unfolding round_double_def Let_def
    apply (simp add: b)
    apply (simp add: pow2_def round_half_even_def Let_def floor_rat_numeral_div)
    done
qed

lemma round_plus_two: "fl_add (Fin 10000000000000000) (Fin 2) = Fin 10000000000000002"
proof -
  have b: "binade 10000000000000002 = 53"
    by (simp add: binade_def bit_length.simps)
  show ?thesis
    apply simp
    unfolding round_double_def Let_def
    apply (simp add: b)
    apply (simp add: pow2_def round_half_even_def Let_def floor_rat_numeral_div)
    done
qed

section \<open>The Gateway\<close>

text \<open>
  C7. \<^verbatim>\<open>append_transaction\<close> never raises: whatever the row and the state of the store,
  it returns \<^verbatim>\<open>True\<close> when \<^verbatim>\<open>append_row\<close> succeeded (the row is then in the sheet) and
  \<^verbatim>\<open>False\<close> when \<^verbatim>\<open>append_row\<close> raised, and then the exception is logged.
  \<^verbatim>\<open>read_all_transactions\<close> never raises either: it returns the records read, or the
  empty list with a log entry when the read raised.
\<close>

theorem gateway_never_raises:
  "fst (append_transaction r w) = Inr (append_error w = None)
   \<and> sheet_rows (snd (append_transaction r w)) =
       (if append_error w = None then sheet_rows w @ [r] else sheet_rows w)
   \<and> log (snd (append_transaction r w)) =
       (case append_error w of
          None \<Rightarrow> log w
        | Some e \<Rightarrow> log w @ [(''Gagal menulis ke Google Sheets: %s'', e)])
   \<and> fst (read_all_transactions w) =
       Inr (case read_result w of Inr records \<Rightarrow> records | Inl e \<Rightarrow> [])
   \<and> log (snd (read_all_transactions w)) =
       (case read_result w of
          Inr records \<Rightarrow> log w
        | Inl e \<Rightarrow> log w @ [(''Gagal membaca sheet: %s'', e)])"
  by (simp add: append_transaction_def sheet_append_row_def read_all_transactions_def
      sheet_get_all_records_def split: option.splits sum.splits)

theorem gateway_never_raises_witness:
  "fst (append_transaction [PInt 1] (good_world\<lparr>append_error := Some APIError\<rparr>)) = Inr False
   \<and> log (snd (append_transaction [PInt 1] (good_world\<lparr>append_error := Some APIError\<rparr>))) =
       [(''Gagal menulis ke Google Sheets: %s'', APIError)]
   \<and> fst (read_all_transactions (good_world\<lparr>read_result := Inl APIError\<rparr>)) = Inr []"
  using gateway_never_raises [of "[PInt 1]" "good_world\<lparr>append_error := Some APIError\<rparr>"]
    gateway_never_raises [of "[]" "good_world\<lparr>read_result := Inl APIError\<rparr>"]
  by (simp add: good_world_def)

section \<open>Errors of the connection\<close>

text \<open>
  C3. With the credential file missing, an affirmative confirmation makes
  \<^verbatim>\<open>catat_konfirm\<close> raise the error of \<^verbatim>\<open>init_gspread\<close>: no reply is sent and nothing is
  logged by the bot. Both report handlers raise it in the same way. Only \<^verbatim>\<open>sheet_link\<close>
  catches it and answers with a message.
\<close>

theorem handlers_raise_auth_error:
  "catat_konfirm (plain ''ya'') no_credentials = (Inl AuthError, no_credentials)
   \<and> laporan_minggu sample_repr (command ''laporan_minggu'') no_credentials =
       (Inl AuthError, no_credentials)
   \<and> laporan_bulan sample_repr (command ''laporan_bulan'') no_credentials =
       (Inl AuthError, no_credentials)
   \<and> sheet_link (command ''sheet'') no_credentials =
       (Inr (),
        no_credentials
          \<lparr>outbox :=
             [Text ''Gagal mendapatkan link spreadsheet. Cek credential dan nama spreadsheet.''],
           log := [(''Gagal dapatkan link: %s'', AuthError)]\<rparr>)"
  by (simp add: catat_konfirm_def plain_def msg_text_def strip_lower_ya affirmative_def
      init_gspread_def no_credentials_def good_world_def laporan_minggu_def laporan_bulan_def
      laporan_def sheet_link_def reply_text_def)


section \<open>The dialog: amount and type\<close>

text \<open>
  C2. The text \<^verbatim>\<open>1.2.3\<close> passes the test of \<^verbatim>\<open>catat_jumlah\<close>, since it is made of
  digits once its points are removed, and \<^verbatim>\<open>float\<close> then raises \<open>ValueError\<close>: the
  handler raises, no reply is sent, and the conversation stays in \<open>JUMLAH\<close>.
\<close>

theorem amount_with_two_points_raises:
  "catat_jumlah (plain ''1.2.3'') good_world = (Inl ValueError, good_world)
   \<and> conv_handler (plain ''1.2.3'') (JUMLAH, good_world) = (JUMLAH, good_world)"
proof -
  have f: "float_of_str ''1.2.3'' = Inl ValueError"
    by (simp add: float_of_str_def str_defs split_sign_def parse_decimal_def parse_exponent_def)
  have c: "catat_jumlah (plain ''1.2.3'') good_world = (Inl ValueError, good_world)"
    by (simp add: catat_jumlah_def str_defs f)
  show ?thesis
    using c by (simp add: conv_handler_def run_handler_def plain_def)
qed

text \<open>
  C9, as stated, fails: a text with a blank before the keyword is accepted although it
  does not equal either keyword, whatever the case of its letters.
\<close>

theorem jenis_accepts_padded_text:
  "fst (catat_jenis (plain '' pemasukan'') good_world) = Inr KATEGORI
   \<and> py_lower '' pemasukan'' \<noteq> ''pemasukan''
   \<and> py_lower '' pemasukan'' \<noteq> ''pengeluaran''"
  by (simp add: catat_jenis_def str_defs)

text \<open>
  C9, amended. In the state \<open>JENIS\<close> a text is accepted if and only if, once the
  whitespace around it is dropped and its letters are put in lower case, it is
  \<^verbatim>\<open>pemasukan\<close> or \<^verbatim>\<open>pengeluaran\<close>. An accepted text is stored in that form and the
  conversation goes to \<open>KATEGORI\<close>; any other text is answered with the prompt again and
  the conversation stays in \<open>JENIS\<close>.
\<close>

theorem jenis_accepted_iff:
  assumes "msg u = Plain t"
  shows "conv_handler u (JENIS, w) =
     (if py_lower (py_strip t) = ''pemasukan'' \<or> py_lower (py_strip t) = ''pengeluaran''
      then (KATEGORI,
            reply_text ''Kategori (contoh: makan, transport, gaji, jualan):''
              (w\<lparr>udata := (udata w)\<lparr>ud_jenis := Some (py_lower (py_strip t))\<rparr>\<rparr>))
      else (JENIS, reply_text ''Pilih 'pemasukan' atau 'pengeluaran'.'' w))"
  using assms
  by (simp add: conv_handler_def run_handler_def catat_jenis_def Let_def msg_text_def)

theorem jenis_accepted_iff_witness:
  "conv_handler (plain ''Pengeluaran'') (JENIS, good_world) =
     (KATEGORI,
      reply_text ''Kategori (contoh: makan, transport, gaji, jualan):''
        (good_world\<lparr>udata := (udata good_world)\<lparr>ud_jenis := Some ''pengeluaran''\<rparr>\<rparr>))
   \<and> conv_handler (plain ''belanja'') (JENIS, good_world) =
     (JENIS, reply_text ''Pilih 'pemasukan' atau 'pengeluaran'.'' good_world)"
proof -
  have a: "py_lower (py_strip ''Pengeluaran'') = ''pengeluaran''"
    by code_simp
  have b: "py_lower (py_strip ''belanja'') = ''belanja''"
    by code_simp
  have ma: "msg (plain ''Pengeluaran'') = Plain ''Pengeluaran''"
    and mb: "msg (plain ''belanja'') = Plain ''belanja''"
    by (simp_all add: plain_def)
  show ?thesis
    using jenis_accepted_iff [OF ma, of good_world] jenis_accepted_iff [OF mb, of good_world]
    unfolding a b by simp
qed


section \<open>The dialog: confirmation\<close>

text \<open>
  C6. The dialog of the example, run while the credential file is missing: the
  confirmation \<^verbatim>\<open>ya\<close> makes \<^verbatim>\<open>catat_konfirm\<close> raise before the row is built, so
  \<^verbatim>\<open>append_row\<close> is not called and the conversation stays in \<open>KONFIRM\<close>. With a sheet
  that can be reached the same dialog makes the one call of the example.
\<close>

theorem nasi_dialog_without_credentials:
  "fst (run_dialog nasi_dialog (END, good_world\<lparr>open_error := Some AuthError\<rparr>)) = KONFIRM
   \<and> append_calls (snd (run_dialog nasi_dialog (END, good_world\<lparr>open_error := Some AuthError\<rparr>)))
       = []
   \<and> append_calls (snd (run_dialog nasi_dialog (END, good_world))) =
       [[PStr ''2024-03-05 12:00:00'', PStr ''pengeluaran'', PInt 20000, PStr ''makan'',
         PStr ''nasi'', PInt 42]]"
  by (simp add: nasi_dialog_def handler_defs str_defs float_20000 strftime_noon [unfolded noon_def]
      str_int_20000 good_world_def no_data_def noon_def Let_def)


section \<open>Aggregation\<close>

lemma py_float_int_exact:
  assumes "0 \<le> n" "n < 2 ^ 53"
  shows "py_float (PInt n) = Inr (Fin (of_int n))"
proof -
  have "nat n < 2 ^ 53" using assms by (simp add: nat_less_iff)
  then have "round_double (of_nat (nat n)) = Fin (of_nat (nat n))"
    by (rule round_double_exact_nat)
  moreover have "(of_nat (nat n) :: rat) = of_int n" using assms by simp
  ultimately show ?thesis by simp
qed

lemmas time_defs = parse_ymd_def take_year_def take_number_def take_day_def expect_def
  parse_hms_def make_datetime_def days_in_month_def leap_year_def strptime_datetime_def
  strptime_date_def nat_of_digits_def digit_val_def isdecimal_def isspace_def dt_less_def
  dt_fields_def

lemmas record_defs = record_time_def record_jenis_def record_jumlah_def record_kategori_def
  get_def py_or_def

lemma parse_time_truthy: "parse_time v = Inr dt \<Longrightarrow> truthy v"
  by (cases v) (auto simp: time_defs)

lemma read_entry_Some_iff:
  "read_entry since r = Inr (Some e) \<longleftrightarrow>
     (\<exists>dt a b. parse_time (record_time r) = Inr dt \<and> \<not> dt_less dt since
        \<and> py_float (record_jumlah r) = Inr a \<and> is_pemasukan (record_jenis r) = Inr b
        \<and> e = (if b then Income a else Expense (record_kategori r) a))"
  by (auto simp: read_entry_def Let_def dest: parse_time_truthy
      split: sum.splits bool.splits if_splits)

lemma is_pemasukan_iff:
  "is_pemasukan v = Inr b \<Longrightarrow>
     b = (\<exists>s. v = PStr s \<and> startswith (py_lower s) ''pemasukan'')"
  by (cases v) (auto simp: startswith_def py_lower_def split: if_splits)

lemma summary_loop_snoc:
  "summary_loop since (rs @ [r]) s = summary_step since r (summary_loop since rs s)"
  by (induction rs arbitrary: s) simp_all

lemma read_gaji: "read_entry christmas gaji_record = Inr (Some (Income (Fin 50000)))"
proof -
  have "py_float (PInt 50000) = Inr (Fin 50000)"
    using py_float_int_exact [of 50000] by simp
  then show ?thesis
    by (simp add: read_entry_def gaji_record_def record_defs time_defs christmas_def
        startswith_def py_lower_def lower_char_def char_simps)
qed

lemma read_blank:
  "read_entry christmas blank_record = Inr (Some (Expense (PStr ''Lain-lain'') (Fin 7000)))"
proof -
  have "py_float (PInt 7000) = Inr (Fin 7000)"
    using py_float_int_exact [of 7000] by simp
  then show ?thesis
    by (simp add: read_entry_def blank_record_def record_defs time_defs christmas_def)
qed

lemma dict_update_spec:
  "dict_set m k (fl_add (dict_get m k (Fin 0)) a) =
     (case dropWhile (\<lambda>x. \<not> key_eq (fst x) k) m of
        [] \<Rightarrow> m @ [(k, fl_add (Fin 0) a)]
      | (k0, v) # post \<Rightarrow> takeWhile (\<lambda>x. \<not> key_eq (fst x) k) m @ (k0, fl_add v a) # post)"
proof (induction m)
  case Nil
  show ?case by simp
next
  case (Cons kv m)
  obtain k' v' where kv: "kv = (k', v')" by (cases kv)
  show ?case
  proof (cases "key_eq k' k")
    case True
    then show ?thesis by (simp add: kv del: fl_add.simps)
  next
    case False
    show ?thesis
    proof (cases "dropWhile (\<lambda>x. \<not> key_eq (fst x) k) m")
      case Nil
      from Cons.IH False show ?thesis by (simp add: kv Nil del: fl_add.simps dropWhile_eq_Nil_conv)
    next
      case (Cons y ys)
      obtain k0 v where y: "y = (k0, v)" by (cases y)
      from Cons.IH False show ?thesis by (simp add: kv y Cons del: fl_add.simps)
    qed
  qed
qed

lemma is_pemasukan_Inr_iff:
  "(\<exists>b. is_pemasukan v = Inr b) \<longleftrightarrow> ((\<exists>s. v = PStr s) \<or> \<not> truthy v)"
  by (cases v) auto

lemma read_makan:
  "read_entry christmas makan_record = Inr (Some (Expense (PStr ''makan'') (Fin 5000)))"
proof -
  have "py_float (PInt 5000) = Inr (Fin 5000)"
    using py_float_int_exact [of 5000] by simp
  then show ?thesis
    by (simp add: read_entry_def makan_record_def record_defs time_defs christmas_def
        startswith_def py_lower_def lower_char_def char_simps)
qed

lemma round_double_amounts:
  "round_double 5000 = Fin 5000" "round_double 7000 = Fin 7000" "round_double 12000 = Fin 12000"
  "round_double 14000 = Fin 14000" "round_double 50000 = Fin 50000"
  "round_double 100000 = Fin 100000"
  using round_double_exact_nat [of 5000] round_double_exact_nat [of 7000]
    round_double_exact_nat [of 12000] round_double_exact_nat [of 14000]
    round_double_exact_nat [of 50000] round_double_exact_nat [of 100000]
  by simp_all

lemma read_one_int:
  "read_entry christmas one_int_record = Inr (Some (Expense (PInt 1) (Fin 10)))"
proof -
  have "py_float (PInt 10) = Inr (Fin 10)"
    using py_float_int_exact [of 10] by simp
  then show ?thesis
    by (simp add: read_entry_def one_int_record_def record_defs time_defs christmas_def)
qed

text \<open>
  C4, as stated, fails: this record lies in the window and its amount is a number; its
  type, the number 5, does not start with \<^verbatim>\<open>pemasukan\<close>, yet the record is not added
  to the expense total, because \<^verbatim>\<open>jenis.lower()\<close> raises inside the \<^verbatim>\<open>try\<close>.
\<close>

theorem summary_skips_numeric_type:
  "parse_time (record_time numeric_type_record) = Inr new_year
   \<and> \<not> dt_less new_year christmas
   \<and> py_float (record_jumlah numeric_type_record) = Inr (Fin 10)
   \<and> record_jenis numeric_type_record = PInt 5
   \<and> read_entry christmas numeric_type_record = Inl AttributeError
   \<and> generate_summary [numeric_type_record] christmas =
       \<lparr>total_pemasukan = Fin 0, total_pengeluaran = Fin 0, by_category = []\<rparr>"
proof -
  have p: "parse_time (record_time numeric_type_record) = Inr new_year"
    by (simp add: numeric_type_record_def record_defs time_defs new_year_def)
  have l: "\<not> dt_less new_year christmas"
    by (simp add: time_defs new_year_def christmas_def)
  have t: "truthy (record_time numeric_type_record)"
    using p by (rule parse_time_truthy)
  have j: "py_float (record_jumlah numeric_type_record) = Inr (Fin 10)"
    using py_float_int_exact [of 10] by (simp add: numeric_type_record_def record_defs)
  have y: "record_jenis numeric_type_record = PInt 5"
    by (simp add: numeric_type_record_def record_defs)
  have r: "read_entry christmas numeric_type_record = Inl AttributeError"
    by (simp add: read_entry_def p l t j y)
  from p l j y r show ?thesis
    by (simp add: generate_summary_def summary_step_def)
qed

text \<open>
  C4, amended. Take any records, any window and one more record after them. When the
  timestamp of that record parses and is not before the window, its amount converts to a
  float and its type is a text or is blank, \<^verbatim>\<open>generate_summary\<close> counts it: as an
  income exactly when the type, in lower case, starts with \<^verbatim>\<open>pemasukan\<close>, and then the
  amount is added to the income total and to nothing else; as an expense otherwise, a
  blank or missing type included, and then the amount is added to the expense total and to
  the entry of its category in the category map (the first entry whose key equals the
  category, or a new entry at the end). Any other record changes nothing. The category is
  \<^verbatim>\<open>Lain-lain\<close> when the record has none.
\<close>

theorem summary_classification:
  "((\<exists>dt. parse_time (record_time r) = Inr dt \<and> \<not> dt_less dt since)
      \<and> py_float (record_jumlah r) = Inr a
      \<and> ((\<exists>s. record_jenis r = PStr s) \<or> \<not> truthy (record_jenis r)) \<longrightarrow>
      generate_summary (records @ [r]) since =
        (let S = generate_summary records since; k = record_kategori r
         in if \<exists>s. record_jenis r = PStr s \<and> startswith (py_lower s) ''pemasukan''
            then S\<lparr>total_pemasukan := fl_add (total_pemasukan S) a\<rparr>
            else S\<lparr>total_pengeluaran := fl_add (total_pengeluaran S) a,
                   by_category :=
                     (case dropWhile (\<lambda>x. \<not> key_eq (fst x) k) (by_category S) of
                        [] \<Rightarrow> by_category S @ [(k, fl_add (Fin 0) a)]
                      | (k0, v) # post \<Rightarrow>
                          takeWhile (\<lambda>x. \<not> key_eq (fst x) k) (by_category S) @
                          (k0, fl_add v a) # post)\<rparr>))
   \<and> (\<not> ((\<exists>dt. parse_time (record_time r) = Inr dt \<and> \<not> dt_less dt since)
          \<and> (\<exists>a. py_float (record_jumlah r) = Inr a)
          \<and> ((\<exists>s. record_jenis r = PStr s) \<or> \<not> truthy (record_jenis r))) \<longrightarrow>
      generate_summary (records @ [r]) since = generate_summary records since)
   \<and> record_kategori r =
       (if truthy (get r ''Kategori'') then get r ''Kategori''
        else if truthy (get r ''kategori'') then get r ''kategori'' else PStr ''Lain-lain'')"
proof (intro conjI impI)
  assume c: "(\<exists>dt. parse_time (record_time r) = Inr dt \<and> \<not> dt_less dt since)
      \<and> py_float (record_jumlah r) = Inr a
      \<and> ((\<exists>s. record_jenis r = PStr s) \<or> \<not> truthy (record_jenis r))"
  then obtain dt b where
    d: "parse_time (record_time r) = Inr dt" "\<not> dt_less dt since" and
    a: "py_float (record_jumlah r) = Inr a" and
    b: "is_pemasukan (record_jenis r) = Inr b"
    using is_pemasukan_Inr_iff [of "record_jenis r"] by blast
  from b have bi: "b = (\<exists>s. record_jenis r = PStr s \<and> startswith (py_lower s) ''pemasukan'')"
    by (rule is_pemasukan_iff)
  have e: "read_entry since r = Inr (Some (if b then Income a else Expense (record_kategori r) a))"
    unfolding read_entry_Some_iff using d a b by blast
  have step: "generate_summary (records @ [r]) since =
      add_entry (if b then Income a else Expense (record_kategori r) a)
        (generate_summary records since)"
    by (simp add: generate_summary_def summary_loop_snoc summary_step_def e)
  show "generate_summary (records @ [r]) since =
        (let S = generate_summary records since; k = record_kategori r
         in if \<exists>s. record_jenis r = PStr s \<and> startswith (py_lower s) ''pemasukan''
            then S\<lparr>total_pemasukan := fl_add (total_pemasukan S) a\<rparr>
            else S\<lparr>total_pengeluaran := fl_add (total_pengeluaran S) a,
                   by_category :=
                     (case dropWhile (\<lambda>x. \<not> key_eq (fst x) k) (by_category S) of
                        [] \<Rightarrow> by_category S @ [(k, fl_add (Fin 0) a)]
                      | (k0, v) # post \<Rightarrow>
                          takeWhile (\<lambda>x. \<not> key_eq (fst x) k) (by_category S) @
                          (k0, fl_add v a) # post)\<rparr>)"
  proof (cases b)
    case True
    then have inc: "\<exists>s. record_jenis r = PStr s \<and> startswith (py_lower s) ''pemasukan''"
      using bi by simp
    show ?thesis
      unfolding Let_def if_P [OF inc] step using True by simp
  next
    case False
    then have ninc: "\<not> (\<exists>s. record_jenis r = PStr s \<and> startswith (py_lower s) ''pemasukan'')"
      using bi by simp
    show ?thesis
      unfolding Let_def if_not_P [OF ninc] step dict_update_spec [symmetric]
      using False by simp
  qed
next
  assume n: "\<not> ((\<exists>dt. parse_time (record_time r) = Inr dt \<and> \<not> dt_less dt since)
          \<and> (\<exists>a. py_float (record_jumlah r) = Inr a)
          \<and> ((\<exists>s. record_jenis r = PStr s) \<or> \<not> truthy (record_jenis r)))"
  have "read_entry since r \<noteq> Inr (Some e)" for e
    using n is_pemasukan_Inr_iff [of "record_jenis r"] unfolding read_entry_Some_iff by blast
  then have "summary_step since r s = s" for s
    by (auto simp: summary_step_def split: sum.splits option.splits)
  then show "generate_summary (records @ [r]) since = generate_summary records since"
    by (simp add: generate_summary_def summary_loop_snoc)
next
  show "record_kategori r =
       (if truthy (get r ''Kategori'') then get r ''Kategori''
        else if truthy (get r ''kategori'') then get r ''kategori'' else PStr ''Lain-lain'')"
    by (simp add: record_kategori_def py_or_def)
qed


theorem summary_classification_witness:
  "generate_summary ([blank_record, gaji_record] @ [blank_record]) christmas =
     \<lparr>total_pemasukan = Fin 50000, total_pengeluaran = Fin 14000,
      by_category = [(PStr ''Lain-lain'', Fin 14000)]\<rparr>
   \<and> generate_summary ([blank_record] @ [makan_record]) christmas =
     \<lparr>total_pemasukan = Fin 0, total_pengeluaran = Fin 12000,
      by_category = [(PStr ''Lain-lain'', Fin 7000), (PStr ''makan'', Fin 5000)]\<rparr>
   \<and> generate_summary ([gaji_record] @ [gaji_record]) christmas =
     \<lparr>total_pemasukan = Fin 100000, total_pengeluaran = Fin 0, by_category = []\<rparr>
   \<and> generate_summary ([blank_record] @ [numeric_type_record]) christmas =
     \<lparr>total_pemasukan = Fin 0, total_pengeluaran = Fin 7000,
      by_category = [(PStr ''Lain-lain'', Fin 7000)]\<rparr>
   \<and> generate_summary ([one_int_record] @ [one_float_record]) christmas =
     \<lparr>total_pemasukan = Fin 0, total_pengeluaran = Fin 30, by_category = [(PInt 1, Fin 30)]\<rparr>"
proof -
  have rd: "round_double 10 = Fin 10" "round_double 30 = Fin 30"
    using round_double_exact_nat [of 10] round_double_exact_nat [of 30] by simp_all
  have s4: "generate_summary [one_int_record] christmas =
      \<lparr>total_pemasukan = Fin 0, total_pengeluaran = Fin 10, by_category = [(PInt 1, Fin 10)]\<rparr>"
    by (simp add: generate_summary_def summary_step_def read_one_int rd)
  have tf: "\<exists>dt. parse_time (record_time one_float_record) = Inr dt \<and> \<not> dt_less dt christmas"
    by (simp add: one_float_record_def record_defs time_defs christmas_def)
  have jf: "py_float (record_jumlah one_float_record) = Inr (Fin 20)"
    using py_float_int_exact [of 20] by (simp add: one_float_record_def record_defs)
  have yf: "record_jenis one_float_record = PNone"
    "record_kategori one_float_record = PFloat (Fin 1)"
    by (simp_all add: one_float_record_def record_defs)
  have s1: "generate_summary [blank_record, gaji_record] christmas =
      \<lparr>total_pemasukan = Fin 50000, total_pengeluaran = Fin 7000,
       by_category = [(PStr ''Lain-lain'', Fin 7000)]\<rparr>"
    by (simp add: generate_summary_def summary_step_def read_blank read_gaji round_double_amounts)
  have s2: "generate_summary [blank_record] christmas =
      \<lparr>total_pemasukan = Fin 0, total_pengeluaran = Fin 7000,
       by_category = [(PStr ''Lain-lain'', Fin 7000)]\<rparr>"
    by (simp add: generate_summary_def summary_step_def read_blank round_double_amounts)
  have s3: "generate_summary [gaji_record] christmas =
      \<lparr>total_pemasukan = Fin 50000, total_pengeluaran = Fin 0, by_category = []\<rparr>"
    by (simp add: generate_summary_def summary_step_def read_gaji round_double_amounts)
  have tb: "\<exists>dt. parse_time (record_time blank_record) = Inr dt \<and> \<not> dt_less dt christmas"
    by (simp add: blank_record_def record_defs time_defs christmas_def)
  have tm: "\<exists>dt. parse_time (record_time makan_record) = Inr dt \<and> \<not> dt_less dt christmas"
    by (simp add: makan_record_def record_defs time_defs christmas_def)
  have tg: "\<exists>dt. parse_time (record_time gaji_record) = Inr dt \<and> \<not> dt_less dt christmas"
    by (simp add: gaji_record_def record_defs time_defs christmas_def)
  have jb: "py_float (record_jumlah blank_record) = Inr (Fin 7000)"
    using py_float_int_exact [of 7000] by (simp add: blank_record_def record_defs)
  have jm: "py_float (record_jumlah makan_record) = Inr (Fin 5000)"
    using py_float_int_exact [of 5000] by (simp add: makan_record_def record_defs)
  have jg: "py_float (record_jumlah gaji_record) = Inr (Fin 50000)"
    using py_float_int_exact [of 50000] by (simp add: gaji_record_def record_defs)
  have yb: "record_jenis blank_record = PNone" "record_kategori blank_record = PStr ''Lain-lain''"
    by (simp_all add: blank_record_def record_defs)
  have ym: "record_jenis makan_record = PStr ''pengeluaran''"
    "record_kategori makan_record = PStr ''makan''"
    by (simp_all add: makan_record_def record_defs)
  have yg: "record_jenis gaji_record = PStr ''Pemasukan''"
    by (simp add: gaji_record_def record_defs)
  have yn: "record_jenis numeric_type_record = PInt 5"
    by (simp add: numeric_type_record_def record_defs)
  have lw: "\<not> startswith (py_lower []) ''pemasukan''"
    "\<not> startswith (py_lower ''pengeluaran'') ''pemasukan''"
    "startswith (py_lower ''Pemasukan'') ''pemasukan''"
    by (simp_all add: startswith_def py_lower_def lower_char_def char_simps)
  from summary_classification [where r = blank_record and since = christmas
      and a = "Fin 7000" and records = "[blank_record, gaji_record]"] tb jb
  have w1: "generate_summary ([blank_record, gaji_record] @ [blank_record]) christmas =
     \<lparr>total_pemasukan = Fin 50000, total_pengeluaran = Fin 14000,
      by_category = [(PStr ''Lain-lain'', Fin 14000)]\<rparr>"
    by (simp add: yb lw s1 Let_def round_double_amounts del: append.simps)
  from summary_classification [where r = makan_record and since = christmas
      and a = "Fin 5000" and records = "[blank_record]"] tm jm
  have w2: "generate_summary ([blank_record] @ [makan_record]) christmas =
     \<lparr>total_pemasukan = Fin 0, total_pengeluaran = Fin 12000,
      by_category = [(PStr ''Lain-lain'', Fin 7000), (PStr ''makan'', Fin 5000)]\<rparr>"
    by (simp add: ym lw s2 Let_def round_double_amounts del: append.simps)
  from summary_classification [where r = gaji_record and since = christmas
      and a = "Fin 50000" and records = "[gaji_record]"] tg jg
  have w3: "generate_summary ([gaji_record] @ [gaji_record]) christmas =
     \<lparr>total_pemasukan = Fin 100000, total_pengeluaran = Fin 0, by_category = []\<rparr>"
    by (simp add: yg lw s3 Let_def round_double_amounts del: append.simps)
  from summary_classification [where r = numeric_type_record and since = christmas
      and records = "[blank_record]"]
  have w4: "generate_summary ([blank_record] @ [numeric_type_record]) christmas =
     \<lparr>total_pemasukan = Fin 0, total_pengeluaran = Fin 7000,
      by_category = [(PStr ''Lain-lain'', Fin 7000)]\<rparr>"
    by (simp add: yn s2 del: append.simps)
  from summary_classification [where r = one_float_record and since = christmas
      and a = "Fin 20" and records = "[one_int_record]"] tf jf
  have w5: "generate_summary ([one_int_record] @ [one_float_record]) christmas =
     \<lparr>total_pemasukan = Fin 0, total_pengeluaran = Fin 30, by_category = [(PInt 1, Fin 30)]\<rparr>"
    by (simp add: yf s4 Let_def rd del: append.simps)
  from w1 w2 w3 w4 w5 show ?thesis by blast
qed






section \<open>The dialog and the store\<close>

lemma reply_text_calls [simp]:
  "append_calls (reply_text t w) = append_calls w" "sheet_rows (reply_text t w) = sheet_rows w"
  by (simp_all add: reply_text_def)

lemma quiet_handlers:
  "append_calls (snd (catat_start u w)) = append_calls w \<and> sheet_rows (snd (catat_start u w)) = sheet_rows w"
  "append_calls (snd (catat_jumlah u w)) = append_calls w \<and> sheet_rows (snd (catat_jumlah u w)) = sheet_rows w"
  "append_calls (snd (catat_jenis u w)) = append_calls w \<and> sheet_rows (snd (catat_jenis u w)) = sheet_rows w"
  "append_calls (snd (catat_kategori u w)) = append_calls w \<and> sheet_rows (snd (catat_kategori u w)) = sheet_rows w"
  "append_calls (snd (catat_deskripsi u w)) = append_calls w \<and> sheet_rows (snd (catat_deskripsi u w)) = sheet_rows w"
  "append_calls (snd (cancel u w)) = append_calls w \<and> sheet_rows (snd (cancel u w)) = sheet_rows w"
  by (simp_all add: catat_start_def catat_jumlah_def catat_jenis_def catat_kategori_def
      catat_deskripsi_def cancel_def Let_def split: sum.splits)

lemma run_handler_quiet:
  assumes "\<And>w. append_calls (snd (h u w)) = append_calls w \<and> sheet_rows (snd (h u w)) = sheet_rows w"
  shows "append_calls (snd (run_handler h u cw)) = append_calls (snd cw)
     \<and> sheet_rows (snd (run_handler h u cw)) = sheet_rows (snd cw)"
proof -
  obtain res w' where h: "h u (snd cw) = (res, w')" by (cases "h u (snd cw)")
  with assms [of "snd cw"] have "append_calls w' = append_calls (snd cw)"
    "sheet_rows w' = sheet_rows (snd cw)" by simp_all
  with h show ?thesis by (cases res) (simp_all add: run_handler_def)
qed

lemma konfirm_quiet:
  assumes "\<not> affirmative (py_lower (py_strip (msg_text u)))"
  shows "append_calls (snd (catat_konfirm u w)) = append_calls w
     \<and> sheet_rows (snd (catat_konfirm u w)) = sheet_rows w"
  using assms by (simp add: catat_konfirm_def)

lemma step_quiet:
  assumes "\<not> confirms u (fst cw)"
  shows "append_calls (snd (conv_handler u cw)) = append_calls (snd cw)
     \<and> sheet_rows (snd (conv_handler u cw)) = sheet_rows (snd cw)"
proof (cases "msg u")
  case (Command c)
  then show ?thesis
    by (simp add: conv_handler_def run_handler_quiet quiet_handlers)
next
  case (Plain t)
  show ?thesis
  proof (cases "fst cw")
    case KONFIRM
    with assms Plain have "\<not> affirmative (py_lower (py_strip (msg_text u)))"
      by (simp add: confirms_def msg_text_def)
    then have "\<And>w. append_calls (snd (catat_konfirm u w)) = append_calls w
      \<and> sheet_rows (snd (catat_konfirm u w)) = sheet_rows w"
      by (rule konfirm_quiet)
    then show ?thesis
      using Plain KONFIRM by (simp add: conv_handler_def run_handler_quiet)
  qed (simp_all add: Plain conv_handler_def run_handler_quiet quiet_handlers)
qed

lemma run_quiet:
  "\<not> affirmed_in us cw \<Longrightarrow>
     append_calls (snd (run_dialog us cw)) = append_calls (snd cw)
     \<and> sheet_rows (snd (run_dialog us cw)) = sheet_rows (snd cw)"
proof (induction us arbitrary: cw)
  case Nil
  then show ?case by simp
next
  case (Cons u us)
  then have "\<not> confirms u (fst cw)" "\<not> affirmed_in us (conv_handler u cw)" by simp_all
  with Cons.IH [of "conv_handler u cw"] step_quiet [of u cw] show ?case by simp
qed


lemma ready_row:
  assumes "fields_ready KONFIRM (udata w)"
  shows "\<exists>r. konfirm_row u w = Inr r"
  using assms
  by (auto simp: konfirm_row_def subscript_def int_opt_def split: option.splits sum.splits)

lemma step_ready:
  assumes "fields_ready (fst cw) (udata (snd cw))"
  shows "fields_ready (fst (conv_handler u cw)) (udata (snd (conv_handler u cw)))"
proof (cases "msg u")
  case (Command c)
  then show ?thesis
    using assms
    by (auto simp: conv_handler_def run_handler_def catat_start_def cancel_def reply_text_def)
next
  case (Plain t)
  obtain s w where cw: "cw = (s, w)" by (cases cw)
  show ?thesis
    using assms Plain unfolding cw
    by (cases s)
      (auto simp: conv_handler_def run_handler_def catat_jumlah_def catat_jenis_def
        catat_kategori_def catat_deskripsi_def catat_konfirm_def reply_text_def Let_def
        append_transaction_def sheet_append_row_def int_opt_def
        split: sum.splits option.splits prod.splits if_splits)
qed

lemma run_ready:
  "fields_ready (fst cw) (udata (snd cw)) \<Longrightarrow>
     fields_ready (fst (run_dialog us cw)) (udata (snd (run_dialog us cw)))"
  by (induction us arbitrary: cw) (simp_all add: step_ready)

lemma step_confirm:
  assumes "confirms u s" "init_gspread w = Inr ()" "konfirm_row u w = Inr r"
  shows "fst (conv_handler u (s, w)) = END
     \<and> append_calls (snd (conv_handler u (s, w))) = append_calls w @ [r]
     \<and> sheet_rows (snd (conv_handler u (s, w))) =
         (if append_error w = None then sheet_rows w @ [r] else sheet_rows w)"
proof -
  from assms(1) obtain t where t: "msg u = Plain t" "affirmative (py_lower (py_strip t))" "s = KONFIRM"
    by (auto simp: confirms_def split: message.splits)
  then show ?thesis
    using assms(2,3)
    by (auto simp: conv_handler_def run_handler_def catat_konfirm_def msg_text_def
        append_transaction_def sheet_append_row_def split: option.splits)
qed

lemmas dialog_eval = handler_defs str_defs float_20000 strftime_noon [unfolded noon_def]
  str_int_20000 good_world_def no_data_def noon_def Let_def confirms_def

text \<open>
  C1, as stated, fails: in this run the user confirms with \<^verbatim>\<open>ya\<close>, the store refuses
  the write, and no row is appended to the sheet.
\<close>

theorem confirmed_but_not_stored:
  "affirmed_in nasi_dialog (END, rejecting_world)
   \<and> sheet_rows (snd (run_dialog nasi_dialog (END, rejecting_world))) = sheet_rows rejecting_world"
  by (simp add: nasi_dialog_def rejecting_world_def dialog_eval)

text \<open>
  C1, amended. A run of the dialog with no affirmative confirmation makes no call of
  \<^verbatim>\<open>append_row\<close> and leaves the sheet as it was: this covers every other confirmation
  text, \<^verbatim>\<open>/cancel\<close> and a run that stops before a final state. In a dialog started
  from no conversation, an affirmative confirmation made while the sheet can be reached
  makes exactly one call of \<^verbatim>\<open>append_row\<close>, with the row built from the stored fields,
  and ends the conversation; that row is in the sheet afterwards exactly when the store
  accepted the write.
\<close>

theorem rows_only_after_confirmation:
  "(\<not> affirmed_in us cw \<longrightarrow>
      append_calls (snd (run_dialog us cw)) = append_calls (snd cw)
      \<and> sheet_rows (snd (run_dialog us cw)) = sheet_rows (snd cw))
   \<and> (confirms u (fst (run_dialog vs (END, w0)))
       \<and> init_gspread (snd (run_dialog vs (END, w0))) = Inr () \<longrightarrow>
       (\<exists>r. konfirm_row u (snd (run_dialog vs (END, w0))) = Inr r
          \<and> fst (conv_handler u (run_dialog vs (END, w0))) = END
          \<and> append_calls (snd (conv_handler u (run_dialog vs (END, w0)))) =
              append_calls (snd (run_dialog vs (END, w0))) @ [r]
          \<and> sheet_rows (snd (conv_handler u (run_dialog vs (END, w0)))) =
              (if append_error (snd (run_dialog vs (END, w0))) = None
               then sheet_rows (snd (run_dialog vs (END, w0))) @ [r]
               else sheet_rows (snd (run_dialog vs (END, w0))))))"
proof -
  obtain s w where sw: "run_dialog vs (END, w0) = (s, w)" by (cases "run_dialog vs (END, w0)")
  have "fields_ready (fst (run_dialog vs (END, w0))) (udata (snd (run_dialog vs (END, w0))))"
    by (rule run_ready) simp
  then have ready: "fields_ready s (udata w)" by (simp add: sw)
  have second: "\<exists>r. konfirm_row u w = Inr r
          \<and> fst (conv_handler u (s, w)) = END
          \<and> append_calls (snd (conv_handler u (s, w))) = append_calls w @ [r]
          \<and> sheet_rows (snd (conv_handler u (s, w))) =
              (if append_error w = None then sheet_rows w @ [r] else sheet_rows w)"
    if c: "confirms u s" and i: "init_gspread w = Inr ()"
  proof -
    from c have "s = KONFIRM" by (simp add: confirms_def)
    with ready obtain r where r: "konfirm_row u w = Inr r" using ready_row by blast
    from step_confirm [OF c i r] r show ?thesis by blast
  qed
  show ?thesis
    unfolding sw fst_conv snd_conv using run_quiet [of us cw] second by blast
qed


theorem rows_only_after_confirmation_witness:
  "\<not> affirmed_in batal_dialog (END, good_world)
   \<and> append_calls (snd (run_dialog batal_dialog (END, good_world))) = []
   \<and> confirms (plain ''ya'') (fst (run_dialog nasi_fields (END, rejecting_world)))
   \<and> init_gspread (snd (run_dialog nasi_fields (END, rejecting_world))) = Inr ()
   \<and> append_calls (snd (conv_handler (plain ''ya'') (run_dialog nasi_fields (END, rejecting_world))))
       = [[PStr ''2024-03-05 12:00:00'', PStr ''pengeluaran'', PInt 20000, PStr ''makan'',
           PStr ''nasi'', PInt 42]]
   \<and> sheet_rows (snd (conv_handler (plain ''ya'') (run_dialog nasi_fields (END, rejecting_world))))
       = []"
proof -
  have n: "\<not> affirmed_in batal_dialog (END, good_world)"
    by (simp add: batal_dialog_def dialog_eval)
  have c: "confirms (plain ''ya'') (fst (run_dialog nasi_fields (END, rejecting_world)))"
    by (simp add: nasi_fields_def rejecting_world_def dialog_eval)
  have i: "init_gspread (snd (run_dialog nasi_fields (END, rejecting_world))) = Inr ()"
    by (simp add: nasi_fields_def rejecting_world_def dialog_eval)
  have r: "konfirm_row (plain ''ya'') (snd (run_dialog nasi_fields (END, rejecting_world))) =
      Inr [PStr ''2024-03-05 12:00:00'', PStr ''pengeluaran'', PInt 20000, PStr ''makan'',
           PStr ''nasi'', PInt 42]"
    by (simp add: nasi_fields_def rejecting_world_def dialog_eval)
  have e: "append_error (snd (run_dialog nasi_fields (END, rejecting_world))) = Some APIError"
    "append_calls (snd (run_dialog nasi_fields (END, rejecting_world))) = []"
    "sheet_rows (snd (run_dialog nasi_fields (END, rejecting_world))) = []"
    by (simp_all add: nasi_fields_def rejecting_world_def dialog_eval)
  note t1 = rows_only_after_confirmation [where us = batal_dialog and cw = "(END, good_world)"
      and u = "plain ''ya''" and vs = nasi_fields and ?w0.0 = rejecting_world]
  from t1 n have a: "append_calls (snd (run_dialog batal_dialog (END, good_world))) = []"
    by (simp add: good_world_def)
  from t1 c i r e have
    "append_calls (snd (conv_handler (plain ''ya'') (run_dialog nasi_fields (END, rejecting_world))))
       = [[PStr ''2024-03-05 12:00:00'', PStr ''pengeluaran'', PInt 20000, PStr ''makan'',
           PStr ''nasi'', PInt 42]]"
    "sheet_rows (snd (conv_handler (plain ''ya'') (run_dialog nasi_fields (END, rejecting_world))))
       = []"
    by auto
  with n a c i show ?thesis by blast
qed



section \<open>The CSV text\<close>

lemma count_lf_append [simp]: "count_lf (a @ b) = count_lf a + count_lf b"
  by (simp add: count_lf_def)

lemma count_lf_Cons [simp]: "count_lf (c # s) = (if c = LF then 1 else 0) + count_lf s"
  by (simp add: count_lf_def)

lemma count_lf_Nil [simp]: "count_lf [] = 0"
  by (simp add: count_lf_def)

lemma LF_chars [simp]: "CHR '','' \<noteq> LF" "CHR 0x22 \<noteq> LF" "CR \<noteq> LF"
  by (simp_all add: LF_def CR_def)

lemma count_lf_quote: "LF \<notin> set s \<Longrightarrow> count_lf (csv_quote s) = 0"
proof -
  assume n: "LF \<notin> set s"
  have a: "count_lf s = 0" using n by (induction s) auto
  have b: "count_lf (concat (map (\<lambda>c. if c = CHR 0x22 then [c, c] else [c]) s)) = 0"
    using n by (induction s) auto
  show ?thesis by (simp add: csv_quote_def a b)
qed

lemma count_lf_join:
  "(\<forall>x\<in>set xs. count_lf x = 0) \<Longrightarrow> count_lf (join_commas xs) = 0"
  by (induction xs rule: join_commas.induct) simp_all

lemma writerow_six:
  "length cells = 6 \<Longrightarrow> writerow cells = join_commas (map csv_quote cells) @ [CR, LF]"
  by (auto simp: writerow_def)

lemma header_line:
  "writerow csv_header = ''Tanggal,Jenis,Jumlah,Kategori,Deskripsi,User'' @ [CR, LF]"
  by (simp add: writerow_def csv_header_def csv_quote_def needs_quotes_def CR_def LF_def)

lemma record_line:
  "csv_record_line fr r = join_commas (map (\<lambda>c. csv_quote (csv_text fr c)) (csv_cells r)) @ [CR, LF]"
proof -
  have "length (map (csv_text fr) (csv_cells r)) = 6" by (simp add: csv_cells_def)
  from writerow_six [OF this] show ?thesis by (simp add: csv_record_line_def comp_def)
qed

lemma count_lf_record_line:
  assumes "\<forall>c\<in>set (csv_cells r). LF \<notin> set (csv_text fr c)"
  shows "count_lf (csv_record_line fr r) = 1"
proof -
  have "\<forall>x\<in>set (map (\<lambda>c. csv_quote (csv_text fr c)) (csv_cells r)). count_lf x = 0"
    using assms by (auto simp: count_lf_quote)
  then have "count_lf (join_commas (map (\<lambda>c. csv_quote (csv_text fr c)) (csv_cells r))) = 0"
    by (rule count_lf_join)
  then show ?thesis by (simp add: record_line)
qed

lemma count_lf_lines:
  "(\<forall>r\<in>set rs. \<forall>c\<in>set (csv_cells r). LF \<notin> set (csv_text fr c)) \<Longrightarrow>
     count_lf (concat (map (csv_record_line fr) rs)) = length rs"
  by (induction rs) (simp_all add: count_lf_record_line)

text \<open>
  C8, as stated, fails: one record whose description holds a line feed gives a text of
  three lines, not two.
\<close>

theorem csv_line_in_a_cell:
  "count_lf (render_csv sample_repr [multiline_record]) = 3"
  by (simp add: render_csv_def header_line record_line csv_cells_def multiline_record_def get_def
      py_or_def csv_quote_def needs_quotes_def LF_def CR_def)

text \<open>
  C8, amended. For every list of records the CSV text is the header
  \<^verbatim>\<open>Tanggal,Jenis,Jumlah,Kategori,Deskripsi,User\<close> followed by one row for each record, in
  the order of the list and with none left out; a row is the six cells of \<open>csv_cells\<close> in
  that order, quoted where needed and joined by commas; header and rows each end with
  carriage return and line feed. When no cell holds a line feed, the text has exactly one
  line more than there are records.
\<close>

theorem csv_rows:
  "render_csv fr records =
     ''Tanggal,Jenis,Jumlah,Kategori,Deskripsi,User'' @ [CR, LF] @
     concat (map (\<lambda>r. join_commas (map (\<lambda>c. csv_quote (csv_text fr c)) (csv_cells r)) @ [CR, LF])
               records)
   \<and> ((\<forall>r\<in>set records. \<forall>c\<in>set (csv_cells r). LF \<notin> set (csv_text fr c)) \<longrightarrow>
        count_lf (render_csv fr records) = length records + 1)"
proof -
  have a: "render_csv fr records =
     ''Tanggal,Jenis,Jumlah,Kategori,Deskripsi,User'' @ [CR, LF] @
     concat (map (\<lambda>r. join_commas (map (\<lambda>c. csv_quote (csv_text fr c)) (csv_cells r)) @ [CR, LF])
               records)"
  proof -
    have "csv_record_line fr =
        (\<lambda>r. join_commas (map (\<lambda>c. csv_quote (csv_text fr c)) (csv_cells r)) @ [CR, LF])"
      by (rule ext) (rule record_line)
    then show ?thesis unfolding render_csv_def header_line by simp
  qed
  have h: "count_lf (writerow csv_header) = 1"
    unfolding header_line by (simp add: LF_def CR_def)
  have b: "count_lf (render_csv fr records) = length records + 1"
    if "\<forall>r\<in>set records. \<forall>c\<in>set (csv_cells r). LF \<notin> set (csv_text fr c)"
    using count_lf_lines [OF that] h by (simp add: render_csv_def)
  from a b show ?thesis by simp
qed

theorem csv_rows_witness:
  "count_lf (render_csv sample_repr [gaji_record, abc_record]) = 3
   \<and> render_csv sample_repr [gaji_record, abc_record] =
       ''Tanggal,Jenis,Jumlah,Kategori,Deskripsi,User'' @ [CR, LF] @
       ''2024-01-01 10:00:00,Pemasukan,50000,gaji,,'' @ [CR, LF] @
       ''2024-01-01,,abc,,,'' @ [CR, LF]"
proof -
  have s: "str_int 50000 = ''50000''"
    by (simp add: str_int_def str_nat_def digits_of_numeral char_simps)
  have h: "\<forall>r\<in>set [gaji_record, abc_record]. \<forall>c\<in>set (csv_cells r).
      LF \<notin> set (csv_text sample_repr c)"
    by (simp add: csv_cells_def gaji_record_def abc_record_def get_def py_or_def s LF_def)
  note t = csv_rows [of sample_repr "[gaji_record, abc_record]"]
  from t have "(\<forall>r\<in>set [gaji_record, abc_record]. \<forall>c\<in>set (csv_cells r).
        LF \<notin> set (csv_text sample_repr c)) \<longrightarrow>
      count_lf (render_csv sample_repr [gaji_record, abc_record]) =
        length [gaji_record, abc_record] + 1"
    by (rule conjunct2)
  from this h have "count_lf (render_csv sample_repr [gaji_record, abc_record]) =
        length [gaji_record, abc_record] + 1"
    by (rule mp)
  then have n: "count_lf (render_csv sample_repr [gaji_record, abc_record]) = 3"
    by simp
  from t have r: "render_csv sample_repr [gaji_record, abc_record] =
       ''Tanggal,Jenis,Jumlah,Kategori,Deskripsi,User'' @ [CR, LF] @
       ''2024-01-01 10:00:00,Pemasukan,50000,gaji,,'' @ [CR, LF] @
       ''2024-01-01,,abc,,,'' @ [CR, LF]"
    by (simp add: csv_cells_def gaji_record_def abc_record_def get_def py_or_def s csv_quote_def
        needs_quotes_def LF_def CR_def)
  from n r show ?thesis by blast
qed


section \<open>The expense total and the category map\<close>

lemma fl_add_nat:
  assumes "a + b < 2 ^ 53"
  shows "fl_add (Fin (of_nat a)) (Fin (of_nat b)) = Fin (of_nat (a + b))"
  using round_double_exact_nat [OF assms] by simp

lemma foldl_fl_add_nat:
  "a + sum_list cs < 2 ^ 53 \<Longrightarrow>
     foldl fl_add (Fin (of_nat a)) (map (\<lambda>n. Fin (of_nat n)) cs) = Fin (of_nat (a + sum_list cs))"
proof (induction cs arbitrary: a)
  case Nil
  then show ?case by simp
next
  case (Cons c cs)
  then have "a + c < 2 ^ 53" "(a + c) + sum_list cs < 2 ^ 53" by simp_all
  with Cons.IH [of "a + c"] show ?case
    by (simp add: fl_add_nat add.assoc del: fl_add.simps(1) of_nat_add)
qed

lemma values_sum_nat:
  assumes "map snd m = map (\<lambda>n. Fin (of_nat n)) cs" "sum_list cs < 2 ^ 53"
  shows "values_sum m = Fin (of_nat (sum_list cs))"
proof -
  have "foldl fl_add (Fin (of_nat 0)) (map (\<lambda>n. Fin (of_nat n)) cs) = Fin (of_nat (0 + sum_list cs))"
    using assms(2) by (intro foldl_fl_add_nat) simp
  then show ?thesis by (simp add: values_sum_def assms(1))
qed

lemma dict_get_nat:
  "map snd m = map (\<lambda>n. Fin (of_nat n)) cs \<Longrightarrow>
     \<exists>c. dict_get m k (Fin 0) = Fin (of_nat c) \<and> c \<le> sum_list cs
        \<and> (\<forall>n. \<exists>cs'. map snd (dict_set m k (Fin (of_nat (c + n)))) = map (\<lambda>n. Fin (of_nat n)) cs'
              \<and> sum_list cs' = sum_list cs + n)"
proof (induction m arbitrary: cs)
  case Nil
  then have "cs = []" by simp
  have "\<exists>cs'. map snd (dict_set [] k (Fin (of_nat (0 + n)))) = map (\<lambda>n. Fin (rat_of_nat n)) cs'
      \<and> sum_list cs' = sum_list cs + n" for n
    by (rule exI [of _ "[n]"]) (simp add: \<open>cs = []\<close>)
  then show ?case by (intro exI [of _ 0]) simp
next
  case (Cons kv m)
  obtain k' v where kv: "kv = (k', v)" by (cases kv)
  from Cons.prems obtain c0 cs0 where cs: "cs = c0 # cs0" "v = Fin (of_nat c0)"
    "map snd m = map (\<lambda>n. Fin (of_nat n)) cs0"
    by (cases cs) (auto simp: kv)
  show ?case
  proof (cases "key_eq k' k")
    case True
    have "\<exists>cs'. map snd (dict_set (kv # m) k (Fin (of_nat (c0 + n)))) = map (\<lambda>n. Fin (rat_of_nat n)) cs'
        \<and> sum_list cs' = sum_list cs + n" for n
      by (rule exI [of _ "(c0 + n) # cs0"]) (simp add: kv True cs)
    then show ?thesis
      by (intro exI [of _ c0]) (simp add: kv True cs)
  next
    case False
    from Cons.IH [OF cs(3)] obtain c where c: "dict_get m k (Fin 0) = Fin (of_nat c)"
      "c \<le> sum_list cs0"
      "\<And>n. \<exists>cs'. map snd (dict_set m k (Fin (of_nat (c + n)))) = map (\<lambda>n. Fin (of_nat n)) cs'
              \<and> sum_list cs' = sum_list cs0 + n"
      by blast
    have "\<exists>cs'. map snd (dict_set (kv # m) k (Fin (of_nat (c + n)))) = map (\<lambda>n. Fin (rat_of_nat n)) cs'
        \<and> sum_list cs' = sum_list cs + n" for n
    proof -
      from c(3) [of n] obtain cs1 where
        "map snd (dict_set m k (Fin (of_nat (c + n)))) = map (\<lambda>n. Fin (of_nat n)) cs1"
        "sum_list cs1 = sum_list cs0 + n" by blast
      then show ?thesis
        by (intro exI [of _ "c0 # cs1"]) (simp add: kv False cs)
    qed
    with c(1,2) show ?thesis
      by (intro exI [of _ c]) (simp add: kv False cs)
  qed
qed

lemma not_expense:
  assumes "\<not> (\<exists>k a. x = Inr (Some (Expense k a)))"
  shows "(\<exists>e. x = Inl e) \<or> x = Inr None \<or> (\<exists>a. x = Inr (Some (Income a)))"
  using assms by (metis sum.nchotomy option.nchotomy entry.nchotomy)

lemma loop_exact:
  assumes "expense_amounts since rs = map (\<lambda>n. Fin (of_nat n)) ns"
    and "total_pengeluaran s = Fin (of_nat (sum_list cs))"
    and "map snd (by_category s) = map (\<lambda>n. Fin (of_nat n)) cs"
    and "sum_list cs + sum_list ns < 2 ^ 53"
  shows "\<exists>cs'. total_pengeluaran (summary_loop since rs s) = Fin (of_nat (sum_list cs'))
     \<and> map snd (by_category (summary_loop since rs s)) = map (\<lambda>n. Fin (of_nat n)) cs'
     \<and> sum_list cs' = sum_list cs + sum_list ns"
  using assms
proof (induction rs arbitrary: s ns cs)
  case Nil
  then show ?case by auto
next
  case (Cons r rs)
  show ?case
  proof (cases "\<exists>k a. read_entry since r = Inr (Some (Expense k a))")
    case False
    then have ne: "(\<exists>e. read_entry since r = Inl e) \<or> read_entry since r = Inr None
        \<or> (\<exists>a. read_entry since r = Inr (Some (Income a)))"
      by (rule not_expense)
    then have ea: "expense_amounts since (r # rs) = expense_amounts since rs"
      by auto
    from ne have t: "total_pengeluaran (summary_step since r s) = total_pengeluaran s"
      "by_category (summary_step since r s) = by_category s"
      by (auto simp: summary_step_def)
    from Cons.IH [of ns "summary_step since r s" cs] Cons.prems ea t
    show ?thesis by simp
  next
    case True
    then obtain k a where e: "read_entry since r = Inr (Some (Expense k a))" by blast
    with Cons.prems(1) obtain n ns' where ns: "ns = n # ns'" "a = Fin (of_nat n)"
      "expense_amounts since rs = map (\<lambda>n. Fin (of_nat n)) ns'"
      by (cases ns) auto
    from dict_get_nat [OF Cons.prems(3), of k] obtain c cs1 where
      c: "dict_get (by_category s) k (Fin 0) = Fin (of_nat c)" "c \<le> sum_list cs"
      "map snd (dict_set (by_category s) k (Fin (of_nat (c + n)))) = map (\<lambda>n. Fin (of_nat n)) cs1"
      "sum_list cs1 = sum_list cs + n"
      by blast
    from Cons.prems(4) ns(1) have b: "sum_list cs + n < 2 ^ 53" "c + n < 2 ^ 53"
      using c(2) by simp_all
    have st: "summary_step since r s =
        s\<lparr>total_pengeluaran := Fin (of_nat (sum_list cs + n)),
          by_category := dict_set (by_category s) k (Fin (of_nat (c + n)))\<rparr>"
      by (simp add: summary_step_def e ns(2) Cons.prems(2) c(1) fl_add_nat [OF b(1)]
          fl_add_nat [OF b(2)] del: fl_add.simps(1) of_nat_add)
    have "\<exists>cs'. total_pengeluaran (summary_loop since rs (summary_step since r s)) =
          Fin (of_nat (sum_list cs'))
        \<and> map snd (by_category (summary_loop since rs (summary_step since r s))) =
          map (\<lambda>n. Fin (of_nat n)) cs'
        \<and> sum_list cs' = sum_list cs1 + sum_list ns'"
    proof (rule Cons.IH [OF ns(3)])
      show "total_pengeluaran (summary_step since r s) = Fin (of_nat (sum_list cs1))"
        by (simp add: st c(4) del: of_nat_add)
      show "map snd (by_category (summary_step since r s)) = map (\<lambda>n. Fin (of_nat n)) cs1"
        by (simp add: st c(3) del: of_nat_add)
      show "sum_list cs1 + sum_list ns' < 2 ^ 53"
        using Cons.prems(4) by (simp add: c(4) ns(1))
    qed
    then show ?thesis by (simp add: c(4) ns(1) add.assoc)
  qed
qed

lemma round_double_1e16: "round_double 10000000000000000 = Fin 10000000000000000"
proof -
  have b: "binade 10000000000000000 = 53"
    by (simp add: binade_def bit_length.simps)
  show ?thesis
    unfolding round_double_def Let_def
    apply (simp add: b)
    apply (simp add: pow2_def round_half_even_def Let_def floor_rat_numeral_div)
    done
qed

lemma round_double_1e16_1: "round_double 10000000000000001 = Fin 10000000000000000"
  using round_tie_even by simp

lemma round_double_1e16_2: "round_double 10000000000000002 = Fin 10000000000000002"
  using round_plus_two by simp

lemma round_double_small: "round_double 1 = Fin 1" "round_double 2 = Fin 2"
  using round_double_exact_nat [of 1] round_double_exact_nat [of 2] by simp_all

text \<open>
  C10, as stated, fails: the three expenses of \<open>rounding_records\<close> give an expense total
  of \<open>10000000000000000\<close>, since each 1 added to it is rounded away, while the category
  map holds \<open>10000000000000000\<close> and \<open>2\<close>, whose sum is \<open>10000000000000002\<close>.
\<close>

theorem expense_total_differs_from_category_sum:
  "total_pengeluaran (generate_summary rounding_records christmas) = Fin 10000000000000000
   \<and> by_category (generate_summary rounding_records christmas) =
       [(PStr ''a'', Fin 10000000000000000), (PStr ''b'', Fin 2)]
   \<and> values_sum (by_category (generate_summary rounding_records christmas)) =
       Fin 10000000000000002
   \<and> total_pengeluaran (generate_summary rounding_records christmas) \<noteq>
       values_sum (by_category (generate_summary rounding_records christmas))"
  by (simp add: generate_summary_def rounding_records_def summary_step_def read_entry_def
      record_defs time_defs christmas_def values_sum_def round_double_1e16 round_double_1e16_1
      round_double_1e16_2 round_double_small)

text \<open>
  C10, amended. When the amounts of the records counted as expenses are whole and not
  negative, and together stay below \<open>2 ^ 53\<close>, so that no float addition rounds, the
  expense total returned by \<^verbatim>\<open>generate_summary\<close> equals the sum of the values of the
  returned category map, and both equal the sum of those amounts.
\<close>

theorem expense_total_is_category_sum:
  assumes "expense_amounts since records = map (\<lambda>n. Fin (of_nat n)) ns"
    and "sum_list ns < 2 ^ 53"
  shows "total_pengeluaran (generate_summary records since) =
           values_sum (by_category (generate_summary records since))
     \<and> total_pengeluaran (generate_summary records since) = Fin (of_nat (sum_list ns))"
proof -
  let ?s0 = "\<lparr>total_pemasukan = Fin 0, total_pengeluaran = Fin 0, by_category = []\<rparr>"
  have "\<exists>cs'. total_pengeluaran (summary_loop since records ?s0) = Fin (of_nat (sum_list cs'))
     \<and> map snd (by_category (summary_loop since records ?s0)) = map (\<lambda>n. Fin (of_nat n)) cs'
     \<and> sum_list cs' = sum_list [] + sum_list ns"
    using assms(2) by (intro loop_exact [OF assms(1)]) simp_all
  then obtain cs' where cs: "total_pengeluaran (generate_summary records since) = Fin (of_nat (sum_list cs'))"
    "map snd (by_category (generate_summary records since)) = map (\<lambda>n. Fin (of_nat n)) cs'"
    "sum_list cs' = sum_list ns"
    by (auto simp: generate_summary_def)
  from values_sum_nat [OF cs(2)] assms(2) cs(3)
  have "values_sum (by_category (generate_summary records since)) = Fin (of_nat (sum_list cs'))"
    by simp
  with cs show ?thesis by simp
qed

theorem expense_total_is_category_sum_witness:
  "total_pengeluaran (generate_summary [blank_record, gaji_record, blank_record] christmas) =
     values_sum (by_category (generate_summary [blank_record, gaji_record, blank_record] christmas))
   \<and> total_pengeluaran (generate_summary [blank_record, gaji_record, blank_record] christmas) =
     Fin 14000"
proof -
  have e: "expense_amounts christmas [blank_record, gaji_record, blank_record] =
      map (\<lambda>n. Fin (of_nat n)) [7000, 7000]"
    by (simp add: read_blank read_gaji)
  have s: "sum_list [7000, 7000 :: nat] < 2 ^ 53" by simp
  from expense_total_is_category_sum [OF e s] show ?thesis by auto
qed


end
